theory Spec2Isabelle
  imports Main
begin

section \<open>Errors and import results (bridge/core)\<close>

text \<open>
  Go's \<^verbatim>\<open>error\<close> values that the importers create, compare or inspect.
  \<^verbatim>\<open>fmt.Errorf("prefix: %v", err)\<close> is \<open>Errorf prefix err\<close>: a new error whose text is the
  prefix followed by the text of \<open>err\<close>. \<open>ErrOther\<close> stands for any error produced by an
  external collaborator (storage, network, text cleanup).
\<close>

datatype error =
    ErrBugNotExist
  | ErrNoMatchingOp
  | ErrIdentityNotExist
  | ErrMultipleMatch "string list"
  | ErrCanceled
  | ErrDeadlineExceeded
  | ErrOther string
  | ErrorfMsg string
  | Errorf string error

text \<open>
  \<^verbatim>\<open>ImportEvent\<close> is an \<^verbatim>\<open>int\<close> enumeration whose zero value is skipped by the blank
  identifier; \<open>ImportEventZero\<close> is that zero value, which a result built by
  \<^verbatim>\<open>NewImportError\<close> carries.
\<close>

datatype ImportEvent =
    ImportEventZero
  | ImportEventBug
  | ImportEventComment
  | ImportEventCommentEdition
  | ImportEventStatusChange
  | ImportEventTitleEdition
  | ImportEventLabelChange
  | ImportEventIdentity
  | ImportEventNothing

record ImportResult =
  Err :: "error option"
  Event :: ImportEvent
  ID :: string
  Reason :: string

definition NewImportError :: "error option \<Rightarrow> string \<Rightarrow> ImportResult" where
  "NewImportError err reason =
     \<lparr>Err = err, Event = ImportEventZero, ID = [], Reason = reason\<rparr>"

definition NewImportNothing :: "string \<Rightarrow> string \<Rightarrow> ImportResult" where
  "NewImportNothing i reason =
     \<lparr>Err = None, Event = ImportEventNothing, ID = i, Reason = reason\<rparr>"

definition NewImportBug :: "string \<Rightarrow> ImportResult" where
  "NewImportBug i = \<lparr>Err = None, Event = ImportEventBug, ID = i, Reason = []\<rparr>"

definition NewImportComment :: "string \<Rightarrow> ImportResult" where
  "NewImportComment i = \<lparr>Err = None, Event = ImportEventComment, ID = i, Reason = []\<rparr>"

definition NewImportCommentEdition :: "string \<Rightarrow> ImportResult" where
  "NewImportCommentEdition i =
     \<lparr>Err = None, Event = ImportEventCommentEdition, ID = i, Reason = []\<rparr>"

definition NewImportStatusChange :: "string \<Rightarrow> ImportResult" where
  "NewImportStatusChange i =
     \<lparr>Err = None, Event = ImportEventStatusChange, ID = i, Reason = []\<rparr>"

definition NewImportLabelChange :: "string \<Rightarrow> ImportResult" where
  "NewImportLabelChange i =
     \<lparr>Err = None, Event = ImportEventLabelChange, ID = i, Reason = []\<rparr>"

definition NewImportTitleEdition :: "string \<Rightarrow> ImportResult" where
  "NewImportTitleEdition i =
     \<lparr>Err = None, Event = ImportEventTitleEdition, ID = i, Reason = []\<rparr>"

definition NewImportIdentity :: "string \<Rightarrow> ImportResult" where
  "NewImportIdentity i = \<lparr>Err = None, Event = ImportEventIdentity, ID = i, Reason = []\<rparr>"

text \<open>
  \<^verbatim>\<open>ImportResult.String\<close> panics on an event outside the enumeration, which is what the
  zero event of an error result is; \<open>None\<close> is that panic. The \<^verbatim>\<open>%v\<close> of the reason is
  the reason itself.
\<close>

definition String_ImportResult :: "ImportResult \<Rightarrow> string option" where
  "String_ImportResult er =
     (case Event er of
        ImportEventBug \<Rightarrow> Some ''new issue''
      | ImportEventComment \<Rightarrow> Some ''new comment''
      | ImportEventCommentEdition \<Rightarrow> Some ''updated comment''
      | ImportEventStatusChange \<Rightarrow> Some ''changed status''
      | ImportEventTitleEdition \<Rightarrow> Some ''changed title''
      | ImportEventLabelChange \<Rightarrow> Some ''changed label''
      | ImportEventIdentity \<Rightarrow> Some ''new identity''
      | ImportEventNothing \<Rightarrow> Some (''no event: '' @ Reason er)
      | ImportEventZero \<Rightarrow> None)"

section \<open>Identities, operations and snapshots (bug)\<close>

text \<open>
  An identity as the importers and the snapshot see it: its id (\<^verbatim>\<open>Id()\<close>) and the fields
  given to \<^verbatim>\<open>NewIdentityRaw\<close>, with the immutable metadata as the list of pairs of the
  Go map literal.
\<close>

record identity =
  identityId :: string
  identityName :: string
  identityEmail :: string
  identityLogin :: string
  identityAvatar :: string
  identityMetadata :: "(string \<times> string) list"

datatype Status = OpenStatus | ClosedStatus

text \<open>
  The typed payloads of an operation. An edit names its target by the hash of the
  operation that made the comment.
\<close>

datatype payload =
    CreateOp string string
  | AddCommentOp string
  | EditCommentOp string string
  | SetTitleOp string
  | SetStatusOp Status
  | LabelChangeOp "string list" "string list"

record operation =
  opAuthor :: string
  opUnixTime :: int
  opPayload :: payload
  opMetadata :: "(string \<times> string) list"

text \<open>
  \<^verbatim>\<open>GetMetadata\<close> reads the metadata map: a missing key gives the zero string and
  \<^verbatim>\<open>false\<close>.
\<close>

definition GetMetadata :: "operation \<Rightarrow> string \<Rightarrow> string \<times> bool" where
  "GetMetadata op key =
     (case map_of (opMetadata op) key of None \<Rightarrow> ([], False) | Some v \<Rightarrow> (v, True))"

definition GetUnixTime :: "operation \<Rightarrow> int" where
  "GetUnixTime op = opUnixTime op"

record Comment =
  commentId :: string
  commentMessage :: string

record Snapshot =
  snapId :: string
  snapStatus :: Status
  Title :: string
  Comments :: "Comment list"
  Labels :: "string list"
  Author :: "identity option"
  Actors :: "identity list"
  Participants :: "identity list"
  CreatedAt :: int
  Timeline :: "string list"
  Operations :: "operation list"

text \<open>
  Go's slice indexing \<^verbatim>\<open>xs[i]\<close> panics when \<open>i\<close> is out of range; \<open>None\<close> is the panic.
\<close>

definition index :: "'a list \<Rightarrow> int \<Rightarrow> 'a option" where
  "index xs i = (if 0 \<le> i \<and> i < int (length xs) then Some (xs ! nat i) else None)"

definition LastEditTime :: "Snapshot \<Rightarrow> int option" where
  "LastEditTime snap =
     (if length (Operations snap) = 0 then Some 0
      else map_option GetUnixTime
             (index (Operations snap) (int (length (Operations snap)) - 1)))"

definition LastEditUnix :: "Snapshot \<Rightarrow> int option" where
  "LastEditUnix snap =
     (if length (Operations snap) = 0 then Some 0
      else map_option GetUnixTime
             (index (Operations snap) (int (length (Operations snap)) - 1)))"

definition GetCreateMetadata :: "Snapshot \<Rightarrow> string \<Rightarrow> (string \<times> bool) option" where
  "GetCreateMetadata snap key =
     map_option (\<lambda>op. GetMetadata op key) (index (Operations snap) 0)"

text \<open>
  The loops of \<^verbatim>\<open>addActor\<close>, \<^verbatim>\<open>addParticipant\<close> and \<^verbatim>\<open>HasParticipant\<close>: walk the list
  and stop at the first identity with the id.
\<close>

fun hasId :: "identity list \<Rightarrow> string \<Rightarrow> bool" where
  "hasId [] i = False"
| "hasId (a # as) i = (if identityId a = i then True else hasId as i)"

definition addActor :: "identity \<Rightarrow> Snapshot \<Rightarrow> Snapshot" where
  "addActor actor snap =
     (if hasId (Actors snap) (identityId actor) then snap
      else snap\<lparr>Actors := Actors snap @ [actor]\<rparr>)"

definition addParticipant :: "identity \<Rightarrow> Snapshot \<Rightarrow> Snapshot" where
  "addParticipant participant snap =
     (if hasId (Participants snap) (identityId participant) then snap
      else snap\<lparr>Participants := Participants snap @ [participant]\<rparr>)"

definition HasParticipant :: "Snapshot \<Rightarrow> string \<Rightarrow> bool" where
  "HasParticipant snap i = hasId (Participants snap) i"

fun HasAnyParticipant :: "Snapshot \<Rightarrow> string list \<Rightarrow> bool" where
  "HasAnyParticipant snap [] = False"
| "HasAnyParticipant snap (i # ids) =
     (if HasParticipant snap i then True else HasAnyParticipant snap ids)"

text \<open>A sequence of calls of the two adding methods on one snapshot.\<close>

datatype addCall = AddActor identity | AddParticipant identity

fun addCalls :: "addCall list \<Rightarrow> Snapshot \<Rightarrow> Snapshot" where
  "addCalls [] snap = snap"
| "addCalls (AddActor a # cs) snap = addCalls cs (addActor a snap)"
| "addCalls (AddParticipant p # cs) snap = addCalls cs (addParticipant p snap)"

text \<open>The zero value of the struct: what \<^verbatim>\<open>Snapshot{}\<close> is before any operation is applied.\<close>

definition emptySnapshot :: Snapshot where
  "emptySnapshot =
     \<lparr>snapId = [], snapStatus = OpenStatus, Title = [], Comments = [], Labels = [],
      Author = None, Actors = [], Participants = [], CreatedAt = 0, Timeline = [],
      Operations = []\<rparr>"

section \<open>The world of an import run\<close>

text \<open>
  A bug of the repository cache: its id and its operation log. A \<^verbatim>\<open>*cache.BugCache\<close> is a
  position in \<open>bugs\<close>, or \<open>None\<close> for the nil pointer. The world holds what an import run
  reads and changes: the identities and the bugs of the repository, the results sent on the
  channel so far (oldest first), and the two counters of the importer.
\<close>

record bug =
  bugId :: string
  bugOps :: "operation list"

record world =
  identities :: "identity list"
  bugs :: "bug list"
  out :: "ImportResult list"
  importedIssues :: nat
  importedIdentities :: nat

text \<open>The user record of the GitLab client and the answer of the GitHub ghost query.\<close>

record gitlabUser =
  userName :: string
  userPublicEmail :: string
  userUsername :: string
  userAvatarURL :: string

record ghostUser =
  ghostName :: "string option"
  ghostLogin :: string
  ghostAvatarUrl :: string

text \<open>
  What the importers use and these files do not define is a parameter of the model:
  the configuration of the bridge; the content hash of an operation and of an identity;
  \<^verbatim>\<open>text.Cleanup\<close>; \<^verbatim>\<open>time.Parse(...).Unix()\<close>; the two remote user queries; and, for
  every call into the store, whether it fails there (\<open>None\<close>: it does not). A failure may
  depend on the whole world, so any schedule of failures is covered. \<open>nilBugId\<close> is
  what \<^verbatim>\<open>Id()\<close> does on a nil \<^verbatim>\<open>*BugCache\<close>: \<open>None\<close> if it panics.
\<close>

record env =
  conf :: "(string \<times> string) list"
  Hash :: "operation \<Rightarrow> string"
  hashErr :: "world \<Rightarrow> operation \<Rightarrow> error option"
  identityHash :: "identity \<Rightarrow> string"
  Cleanup :: "string \<Rightarrow> error + string"
  parseUnix :: "string \<Rightarrow> int"
  GetUser :: "int \<Rightarrow> error + gitlabUser"
  ghostQuery :: "error + ghostUser"
  identityLookupErr :: "world \<Rightarrow> string \<Rightarrow> string \<Rightarrow> error option"
  bugLookupErr :: "world \<Rightarrow> string \<Rightarrow> string \<Rightarrow> error option"
  opLookupErr :: "world \<Rightarrow> string \<Rightarrow> string \<Rightarrow> error option"
  identityErr :: "world \<Rightarrow> identity \<Rightarrow> error option"
  appendErr :: "world \<Rightarrow> operation \<Rightarrow> error option"
  commitErr :: "world \<Rightarrow> nat \<Rightarrow> error option"
  nilBugId :: "string option"

text \<open>
  A step of an importer returns a value, returns a Go error, or panics, and leaves a world.
\<close>

datatype 'a outcome = Ok 'a | Fail error | Panic

type_synonym 'a action = "world \<Rightarrow> 'a outcome \<times> world"

definition ok :: "'a \<Rightarrow> 'a action" where
  "ok x w = (Ok x, w)"

definition failWith :: "error \<Rightarrow> 'a action" where
  "failWith e w = (Fail e, w)"

definition panicked :: "'a action" where
  "panicked w = (Panic, w)"

definition andThen :: "'a action \<Rightarrow> ('a \<Rightarrow> 'b action) \<Rightarrow> 'b action" where
  "andThen f g w =
     (case f w of
        (Ok x, w') \<Rightarrow> g x w'
      | (Fail e, w') \<Rightarrow> (Fail e, w')
      | (Panic, w') \<Rightarrow> (Panic, w'))"

text \<open>
  \<^verbatim>\<open>x, err := f(); if err != nil { ... }\<close> where the caller does something else than
  return the error.
\<close>

definition handle :: "'a action \<Rightarrow> (error \<Rightarrow> 'b action) \<Rightarrow> ('a \<Rightarrow> 'b action) \<Rightarrow> 'b action" where
  "handle f h g w =
     (case f w of
        (Ok x, w') \<Rightarrow> g x w'
      | (Fail e, w') \<Rightarrow> h e w'
      | (Panic, w') \<Rightarrow> (Panic, w'))"

text \<open>Whether the goroutine goes on after a step or has returned.\<close>

datatype flow = Continue | Return

text \<open>\<^verbatim>\<open>gi.out <- r\<close>: the result is appended to the stream.\<close>

definition emit :: "ImportResult \<Rightarrow> unit action" where
  "emit r w = (Ok (), w\<lparr>out := out w @ [r]\<rparr>)"

text \<open>\<^verbatim>\<open>return err\<close> where \<open>err\<close> may be nil: nil is the normal return.\<close>

definition returnErr :: "error option \<Rightarrow> unit action" where
  "returnErr err = (case err of None \<Rightarrow> ok () | Some e \<Rightarrow> failWith e)"

text \<open>\<^verbatim>\<open>x, err := f(); if err != nil { return err }\<close> for a call that changes nothing.\<close>

definition check :: "error + 'a \<Rightarrow> 'a action" where
  "check r = (case r of Inl e \<Rightarrow> failWith e | Inr x \<Rightarrow> ok x)"

text \<open>The error of a Go result pair, nil on success.\<close>

definition errOf :: "error + 'a \<Rightarrow> error option" where
  "errOf r = (case r of Inl e \<Rightarrow> Some e | Inr _ \<Rightarrow> None)"

text \<open>A read of a Go map of strings: the zero string for a missing key.\<close>

definition mapGet :: "(string \<times> string) list \<Rightarrow> string \<Rightarrow> string" where
  "mapGet m k = (case map_of m k of None \<Rightarrow> [] | Some v \<Rightarrow> v)"

text \<open>\<^verbatim>\<open>fmt.Sprintf("%d", n)\<close> and \<^verbatim>\<open>strconv.Itoa(n)\<close>: the decimal digits of an integer.\<close>

definition digitChar :: "nat \<Rightarrow> char" where
  "digitChar n = ''0123456789'' ! n"

function natToString :: "nat \<Rightarrow> string" where
  "natToString n =
     (if n < 10 then [digitChar n] else natToString (n div 10) @ [digitChar (n mod 10)])"
  by pat_completeness auto
termination
  by (relation "measure (\<lambda>n. n)") auto

declare natToString.simps [simp del]

definition Itoa :: "int \<Rightarrow> string" where
  "Itoa i = (if i < 0 then CHR ''-'' # natToString (nat (- i)) else natToString (nat i))"

section \<open>The repository cache (cache), from its contract\<close>

definition hasMetadata :: "(string \<times> string) list \<Rightarrow> string \<Rightarrow> string \<Rightarrow> bool" where
  "hasMetadata m key v = (map_of m key = Some v)"

definition isErrMultipleMatch :: "error \<Rightarrow> bool" where
  "isErrMultipleMatch e = (case e of ErrMultipleMatch _ \<Rightarrow> True | _ \<Rightarrow> False)"

text \<open>
  Modelled from the spec: \<^verbatim>\<open>RepoCache.ResolveIdentityImmutableMetadata\<close> is not in the files
  at hand. Section 4.2, \<^verbatim>\<open>ResolveByMetadata(key, value)\<close>: an exact-match lookup that fails
  with \<^verbatim>\<open>NotFound\<close> if no identity holds the pair and with \<^verbatim>\<open>AmbiguousMatch\<close> if more than
  one does. The importers name the second error \<^verbatim>\<open>identity.ErrMultipleMatch\<close>; it carries
  the ids that matched.
\<close>

definition ResolveIdentityImmutableMetadata ::
  "env \<Rightarrow> string \<Rightarrow> string \<Rightarrow> (error + identity) action" where
  "ResolveIdentityImmutableMetadata env key v w =
     (case identityLookupErr env w key v of
        Some e \<Rightarrow> (Ok (Inl e), w)
      | None \<Rightarrow>
          (case filter (\<lambda>i. hasMetadata (identityMetadata i) key v) (identities w) of
             [] \<Rightarrow> (Ok (Inl ErrIdentityNotExist), w)
           | [i] \<Rightarrow> (Ok (Inr i), w)
           | ms \<Rightarrow> (Ok (Inl (ErrMultipleMatch (map identityId ms))), w)))"

text \<open>
  Modelled from the spec: \<^verbatim>\<open>RepoCache.NewIdentityRaw\<close> is not in the files at hand.
  Section 4.2: a new identity is created with the metadata attached atomically with the
  creation. Its id is the hash of its content.
\<close>

definition NewIdentityRaw ::
  "env \<Rightarrow> string \<Rightarrow> string \<Rightarrow> string \<Rightarrow> string \<Rightarrow> (string \<times> string) list \<Rightarrow>
   identity action" where
  "NewIdentityRaw env name email login avatar metadata w =
     (let i0 = \<lparr>identityId = [], identityName = name, identityEmail = email,
                identityLogin = login, identityAvatar = avatar,
                identityMetadata = metadata\<rparr>
      in case identityErr env w i0 of
           Some e \<Rightarrow> (Fail e, w)
         | None \<Rightarrow>
             (let i = i0\<lparr>identityId := identityHash env i0\<rparr>
              in (Ok i, w\<lparr>identities := identities w @ [i]\<rparr>)))"

text \<open>
  Modelled from the spec: \<^verbatim>\<open>RepoCache.ResolveBugCreateMetadata\<close> is not in the files at
  hand. Section 4.3, \<^verbatim>\<open>ResolveCreateByMetadata(key, value)\<close>: the entity whose creation
  operation carries the metadata, or the distinguished \<^verbatim>\<open>NotExist\<close> outcome
  (\<^verbatim>\<open>bug.ErrBugNotExist\<close>), with a nil bug, if there is none.
\<close>

definition createdWith :: "string \<Rightarrow> string \<Rightarrow> bug \<Rightarrow> bool" where
  "createdWith key v b =
     (case bugOps b of [] \<Rightarrow> False | op # _ \<Rightarrow> hasMetadata (opMetadata op) key v)"

definition ResolveBugCreateMetadata ::
  "env \<Rightarrow> string \<Rightarrow> string \<Rightarrow> (nat option \<times> error option) action" where
  "ResolveBugCreateMetadata env key v w =
     (case bugLookupErr env w key v of
        Some e \<Rightarrow> (Ok (None, Some e), w)
      | None \<Rightarrow>
          (case filter (\<lambda>n. createdWith key v (bugs w ! n)) [0 ..< length (bugs w)] of
             [] \<Rightarrow> (Ok (None, Some ErrBugNotExist), w)
           | n # _ \<Rightarrow> (Ok (Some n, None), w)))"

text \<open>
  A method of \<^verbatim>\<open>*BugCache\<close> reaches the bug through its receiver: called on the nil
  pointer it panics. (\<^verbatim>\<open>Id()\<close> on nil is the parameter \<open>nilBugId\<close>.) A position outside the
  repository is the unknown entity of section 4.1.
\<close>

definition onBug :: "nat option \<Rightarrow> (nat \<Rightarrow> 'a action) \<Rightarrow> 'a action" where
  "onBug b f = (case b of None \<Rightarrow> panicked | Some n \<Rightarrow> f n)"

definition opsOf :: "world \<Rightarrow> nat \<Rightarrow> operation list" where
  "opsOf w n = (if n < length (bugs w) then bugOps (bugs w ! n) else [])"

definition BugCache_Id :: "env \<Rightarrow> nat option \<Rightarrow> string action" where
  "BugCache_Id env b w =
     (case b of
        None \<Rightarrow> (case nilBugId env of None \<Rightarrow> (Panic, w) | Some s \<Rightarrow> (Ok s, w))
      | Some n \<Rightarrow> (if n < length (bugs w) then (Ok (bugId (bugs w ! n)), w) else (Panic, w)))"

text \<open>\<^verbatim>\<open>op.Hash()\<close>: the content hash, unless computing it fails.\<close>

definition opHash :: "env \<Rightarrow> operation \<Rightarrow> string action" where
  "opHash env op w =
     (case hashErr env w op of Some e \<Rightarrow> (Fail e, w) | None \<Rightarrow> (Ok (Hash env op), w))"

text \<open>
  Modelled from the spec: \<^verbatim>\<open>BugCache.ResolveOperationWithMetadata\<close> is not in the files at
  hand. Section 4.3, \<^verbatim>\<open>ResolveOperationByMetadata(entity, key, value)\<close>: the hash of the
  operation of the entity that carries the metadata, or \<^verbatim>\<open>NoMatchingOp\<close>
  (\<^verbatim>\<open>cache.ErrNoMatchingOp\<close>) with the zero hash.
\<close>

definition ResolveOperationWithMetadata ::
  "env \<Rightarrow> nat \<Rightarrow> string \<Rightarrow> string \<Rightarrow> (string \<times> error option) action" where
  "ResolveOperationWithMetadata env n key v w =
     (case opLookupErr env w key v of
        Some e \<Rightarrow> (Ok ([], Some e), w)
      | None \<Rightarrow>
          (case filter (\<lambda>op. hasMetadata (opMetadata op) key v) (opsOf w n) of
             [] \<Rightarrow> (Ok ([], Some ErrNoMatchingOp), w)
           | op # _ \<Rightarrow> (Ok (Hash env op, None), w)))"

text \<open>
  Modelled from the spec: the \<^verbatim>\<open>Raw\<close> methods of \<^verbatim>\<open>BugCache\<close> and
  \<^verbatim>\<open>RepoCache.NewBugRaw\<close> are not in the files at hand. Section 4.1, \<^verbatim>\<open>Append\<close>: fails
  with \<^verbatim>\<open>EntityNotFound\<close> if the entity is unknown; otherwise appends exactly one operation,
  with the metadata given, or fails and appends nothing. \<^verbatim>\<open>CreateEntity\<close>: a new entity
  whose log is the creation operation and whose identity is the hash of that operation.
\<close>

definition appendRaw :: "env \<Rightarrow> nat \<Rightarrow> operation \<Rightarrow> operation action" where
  "appendRaw env n op w =
     (if n < length (bugs w) then
        (case appendErr env w op of
           Some e \<Rightarrow> (Fail e, w)
         | None \<Rightarrow>
             (Ok op, w\<lparr>bugs := (bugs w)[n := (bugs w ! n)\<lparr>bugOps := bugOps (bugs w ! n) @ [op]\<rparr>]\<rparr>))
      else (Fail (ErrOther ''entity not found''), w))"

definition mkOp :: "identity \<Rightarrow> int \<Rightarrow> payload \<Rightarrow> (string \<times> string) list \<Rightarrow> operation" where
  "mkOp author unixTime p metadata =
     \<lparr>opAuthor = identityId author, opUnixTime = unixTime, opPayload = p,
      opMetadata = metadata\<rparr>"

definition NewBugRaw ::
  "env \<Rightarrow> identity \<Rightarrow> int \<Rightarrow> string \<Rightarrow> string \<Rightarrow> (string \<times> string) list \<Rightarrow>
   nat action" where
  "NewBugRaw env author unixTime title message metadata w =
     (let op = mkOp author unixTime (CreateOp title message) metadata
      in case appendErr env w op of
           Some e \<Rightarrow> (Fail e, w)
         | None \<Rightarrow>
             (Ok (length (bugs w)),
              w\<lparr>bugs := bugs w @ [\<lparr>bugId = Hash env op, bugOps = [op]\<rparr>]\<rparr>))"

definition CloseRaw ::
  "env \<Rightarrow> nat \<Rightarrow> identity \<Rightarrow> int \<Rightarrow> (string \<times> string) list \<Rightarrow> operation action" where
  "CloseRaw env n author unixTime metadata =
     appendRaw env n (mkOp author unixTime (SetStatusOp ClosedStatus) metadata)"

definition OpenRaw ::
  "env \<Rightarrow> nat \<Rightarrow> identity \<Rightarrow> int \<Rightarrow> (string \<times> string) list \<Rightarrow> operation action" where
  "OpenRaw env n author unixTime metadata =
     appendRaw env n (mkOp author unixTime (SetStatusOp OpenStatus) metadata)"

definition SetTitleRaw ::
  "env \<Rightarrow> nat \<Rightarrow> identity \<Rightarrow> int \<Rightarrow> string \<Rightarrow> (string \<times> string) list \<Rightarrow>
   operation action" where
  "SetTitleRaw env n author unixTime title metadata =
     appendRaw env n (mkOp author unixTime (SetTitleOp title) metadata)"

definition AddCommentRaw ::
  "env \<Rightarrow> nat \<Rightarrow> identity \<Rightarrow> int \<Rightarrow> string \<Rightarrow> (string \<times> string) list \<Rightarrow>
   operation action" where
  "AddCommentRaw env n author unixTime message metadata =
     appendRaw env n (mkOp author unixTime (AddCommentOp message) metadata)"

definition EditCommentRaw ::
  "env \<Rightarrow> nat \<Rightarrow> identity \<Rightarrow> int \<Rightarrow> string \<Rightarrow> string \<Rightarrow> (string \<times> string) list \<Rightarrow>
   operation action" where
  "EditCommentRaw env n author unixTime target message metadata =
     appendRaw env n (mkOp author unixTime (EditCommentOp target message) metadata)"

definition ForceChangeLabelsRaw ::
  "env \<Rightarrow> nat \<Rightarrow> identity \<Rightarrow> int \<Rightarrow> string list \<Rightarrow> string list \<Rightarrow>
   (string \<times> string) list \<Rightarrow> operation action" where
  "ForceChangeLabelsRaw env n author unixTime added removed metadata =
     appendRaw env n (mkOp author unixTime (LabelChangeOp added removed) metadata)"

text \<open>
  Modelled from the spec: \<^verbatim>\<open>BugCache.CommitAsNeeded\<close> is not in the files at hand. Section
  4.3, \<^verbatim>\<open>FlushIfDirty\<close>: the appended operations are written durably, or the flush fails.
  The model keeps one log per bug, so a flush that succeeds changes nothing.
\<close>

definition CommitAsNeeded :: "env \<Rightarrow> nat \<Rightarrow> error option action" where
  "CommitAsNeeded env n w = (Ok (commitErr env w n), w)"

text \<open>
  Modelled from the spec: the replay of a log into the comments of its snapshot
  (\<^verbatim>\<open>BugCache.Snapshot\<close>, \<^verbatim>\<open>Snapshot.SearchComment\<close>) is not in the files at hand. Section 3:
  the snapshot replays every operation in log order; \<open>Comments[0]\<close> is the body of the
  creation operation; an edit is a separate operation that names its target by hash. A
  comment's id is the hash of the operation that made it.
\<close>

fun applyComment :: "env \<Rightarrow> Comment list \<Rightarrow> operation \<Rightarrow> Comment list" where
  "applyComment env cs op =
     (case opPayload op of
        CreateOp title message \<Rightarrow> cs @ [\<lparr>commentId = Hash env op, commentMessage = message\<rparr>]
      | AddCommentOp message \<Rightarrow> cs @ [\<lparr>commentId = Hash env op, commentMessage = message\<rparr>]
      | EditCommentOp target message \<Rightarrow>
          map (\<lambda>c. if commentId c = target then c\<lparr>commentMessage := message\<rparr> else c) cs
      | _ \<Rightarrow> cs)"

definition snapshotComments :: "env \<Rightarrow> world \<Rightarrow> nat \<Rightarrow> Comment list" where
  "snapshotComments env w n = foldl (applyComment env) [] (opsOf w n)"

definition SearchComment :: "env \<Rightarrow> nat \<Rightarrow> string \<Rightarrow> Comment action" where
  "SearchComment env n h w =
     (case filter (\<lambda>c. commentId c = h) (snapshotComments env w n) of
        [] \<Rightarrow> (Fail (ErrorfMsg ''comment item not found''), w)
      | c # _ \<Rightarrow> (Ok c, w))"

text \<open>How the goroutine of \<^verbatim>\<open>ImportAll\<close> ends, and the world it leaves.\<close>

datatype runStatus = StreamClosed | StreamLeftOpen | Crashed

section \<open>The GitLab importer (bridge/gitlab/import.go)\<close>

text \<open>
  Modelled from the spec: the metadata keys and the target of the GitLab bridge are
  declared outside the files at hand. Section 6: an origin tag, a source-specific stable
  id and a canonical URL, as plain strings.
\<close>

definition KeyOrigin :: string where "KeyOrigin = ''origin''"
definition gitlabTarget :: string where "gitlabTarget = ''gitlab''"
definition keyGitlabId :: string where "keyGitlabId = ''gitlab-id''"
definition keyGitlabUrl :: string where "keyGitlabUrl = ''gitlab-url''"
definition keyGitlabLogin :: string where "keyGitlabLogin = ''gitlab-login''"
definition keyGitlabProject :: string where "keyGitlabProject = ''gitlab-project-id''"
definition keyProjectID :: string where "keyProjectID = ''project-id''"

text \<open>
  The note types the importer switches on; \<open>NOTE_other\<close> is a value of the type outside
  the cases listed, which reaches the \<^verbatim>\<open>default\<close> of the switch.
\<close>

datatype NoteType =
    NOTE_UNKNOWN
  | NOTE_ASSIGNED
  | NOTE_UNASSIGNED
  | NOTE_CHANGED_MILESTONE
  | NOTE_REMOVED_MILESTONE
  | NOTE_CHANGED_DUEDATE
  | NOTE_REMOVED_DUEDATE
  | NOTE_LOCKED
  | NOTE_UNLOCKED
  | NOTE_COMMENT
  | NOTE_TITLE_CHANGED
  | NOTE_DESCRIPTION_CHANGED
  | NOTE_CLOSED
  | NOTE_REOPENED
  | NOTE_other nat

text \<open>
  The remote records, with the fields the importer reads; a time is the Unix seconds the
  importer takes from it. \<open>glNoteType\<close> and \<open>glNoteBody\<close> are the two results of
  \<^verbatim>\<open>GetNoteType(note)\<close>, and \<open>glNoteTypeText\<close> is the \<^verbatim>\<open>%v\<close> of the first. The iterator
  is the data it yields: for each issue its notes, its label events, and what
  \<^verbatim>\<open>iterator.Error()\<close> answers after them.
\<close>

record gitlabIssue =
  glIssueID :: int
  glIssueAuthorID :: int
  glIssueWebURL :: string
  glIssueDescription :: string
  glIssueTitle :: string
  glIssueCreatedAt :: int

record gitlabNote =
  glNoteID :: int
  glNoteAuthorID :: int
  glNoteCreatedAt :: int
  glNoteUpdatedAt :: int
  glNoteType :: NoteType
  glNoteBody :: string
  glNoteTypeText :: string

record gitlabLabelEvent =
  glEventID :: int
  glEventUserID :: int
  glEventAction :: string
  glEventLabelName :: string
  glEventCreatedAt :: int

record gitlabIssueFeed =
  glIssue :: gitlabIssue
  glNotes :: "gitlabNote list"
  glLabelEvents :: "gitlabLabelEvent list"
  glIteratorError :: "error option"

definition parseID :: "int \<Rightarrow> string" where
  "parseID i = Itoa i"

definition countIdentity :: "unit action" where
  "countIdentity w = (Ok (), w\<lparr>importedIdentities := importedIdentities w + 1\<rparr>)"

definition countIssue :: "unit action" where
  "countIssue w = (Ok (), w\<lparr>importedIssues := importedIssues w + 1\<rparr>)"

definition ensurePerson_gitlab :: "env \<Rightarrow> int \<Rightarrow> identity action" where
  "ensurePerson_gitlab env i =
     andThen (ResolveIdentityImmutableMetadata env keyGitlabId (Itoa i)) (\<lambda>r.
       case r of
         Inr ident \<Rightarrow> ok ident
       | Inl err \<Rightarrow>
           if isErrMultipleMatch err then failWith err
           else
             andThen (check (GetUser env i)) (\<lambda>user.
             andThen (NewIdentityRaw env (userName user) (userPublicEmail user)
                        (userUsername user) (userAvatarURL user)
                        [(keyGitlabId, Itoa i), (keyGitlabLogin, userUsername user)]) (\<lambda>ident.
             andThen (emit (NewImportIdentity (identityId ident))) (\<lambda>_.
             ok ident))))"

definition ensureIssue_gitlab :: "env \<Rightarrow> gitlabIssue \<Rightarrow> nat option action" where
  "ensureIssue_gitlab env issue =
     andThen (ensurePerson_gitlab env (glIssueAuthorID issue)) (\<lambda>author.
     andThen (ResolveBugCreateMetadata env keyGitlabUrl (glIssueWebURL issue)) (\<lambda>(b, err).
       case err of
         Some e \<Rightarrow>
           if e \<noteq> ErrBugNotExist then failWith e
           else
             andThen (check (Cleanup env (glIssueDescription issue))) (\<lambda>cleanText.
             andThen (NewBugRaw env author (glIssueCreatedAt issue) (glIssueTitle issue)
                        cleanText
                        [(KeyOrigin, gitlabTarget),
                         (keyGitlabId, parseID (glIssueID issue)),
                         (keyGitlabUrl, glIssueWebURL issue),
                         (keyGitlabProject, mapGet (conf env) keyProjectID)]) (\<lambda>n.
             andThen countIssue (\<lambda>_.
             andThen (BugCache_Id env (Some n)) (\<lambda>i.
             andThen (emit (NewImportBug i)) (\<lambda>_.
             ok (Some n))))))
       | None \<Rightarrow>
           andThen (emit (NewImportNothing [] ''bug already imported'')) (\<lambda>_.
           ok b)))"

text \<open>
  \<^verbatim>\<open>b.Snapshot().Comments[0]\<close>: the index panics on a snapshot without comments.
\<close>

definition firstComment :: "env \<Rightarrow> nat \<Rightarrow> Comment action" where
  "firstComment env n w =
     (case index (snapshotComments env w n) 0 of None \<Rightarrow> (Panic, w) | Some c \<Rightarrow> (Ok c, w))"

definition ensureNote :: "env \<Rightarrow> nat \<Rightarrow> gitlabIssue \<Rightarrow> gitlabNote \<Rightarrow> unit action" where
  "ensureNote env b issue note =
     (let i = parseID (glNoteID note) in
      andThen (ensurePerson_gitlab env (glNoteAuthorID note)) (\<lambda>author.
        case glNoteType note of
          NOTE_CLOSED \<Rightarrow>
            andThen (CloseRaw env b author (glNoteCreatedAt note) [(keyGitlabId, i)]) (\<lambda>op.
            andThen (opHash env op) (\<lambda>hash.
            emit (NewImportStatusChange hash)))
        | NOTE_REOPENED \<Rightarrow>
            andThen (OpenRaw env b author (glNoteCreatedAt note) [(keyGitlabId, i)]) (\<lambda>op.
            andThen (opHash env op) (\<lambda>hash.
            emit (NewImportStatusChange hash)))
        | NOTE_DESCRIPTION_CHANGED \<Rightarrow>
            andThen (firstComment env b) (\<lambda>first.
              if glIssueDescription issue \<noteq> commentMessage first then
                andThen (EditCommentRaw env b author (glNoteUpdatedAt note) (commentId first)
                           (glIssueDescription issue) [(keyGitlabId, i)]) (\<lambda>op.
                andThen (opHash env op) (\<lambda>hash.
                emit (NewImportTitleEdition hash)))
              else ok ())
        | NOTE_COMMENT \<Rightarrow>
            andThen (ResolveOperationWithMetadata env b keyGitlabId i) (\<lambda>(hash, errResolve).
              if errResolve \<noteq> None then returnErr errResolve
              else
                andThen (check (Cleanup env (glNoteBody note))) (\<lambda>cleanText.
                  if errResolve = Some ErrNoMatchingOp then
                    andThen (AddCommentRaw env b author (glNoteCreatedAt note) cleanText
                               [(keyGitlabId, i)]) (\<lambda>op.
                    andThen (opHash env op) (\<lambda>hash.
                    emit (NewImportComment hash)))
                  else
                    andThen (SearchComment env b hash) (\<lambda>comment.
                      if commentMessage comment \<noteq> cleanText then
                        andThen (EditCommentRaw env b author (glNoteUpdatedAt note)
                                   (commentId comment) cleanText []) (\<lambda>op.
                        andThen (opHash env op) (\<lambda>hash.
                        emit (NewImportCommentEdition hash)))
                      else ok ())))
        | NOTE_TITLE_CHANGED \<Rightarrow>
            andThen (SetTitleRaw env b author (glNoteCreatedAt note) (glNoteBody note)
                       [(keyGitlabId, i)]) (\<lambda>op.
            andThen (opHash env op) (\<lambda>hash.
            emit (NewImportTitleEdition hash)))
        | NOTE_other k \<Rightarrow> panicked
        | _ \<Rightarrow>
            emit (NewImportNothing [] (''unsupported note type: '' @ glNoteTypeText note))))"

definition ensureLabelEvent :: "env \<Rightarrow> nat \<Rightarrow> gitlabLabelEvent \<Rightarrow> unit action" where
  "ensureLabelEvent env b labelEvent =
     andThen (ResolveOperationWithMetadata env b keyGitlabId (parseID (glEventID labelEvent)))
       (\<lambda>(hash, err).
         if err \<noteq> Some ErrNoMatchingOp then returnErr err
         else
           andThen (ensurePerson_gitlab env (glEventUserID labelEvent)) (\<lambda>author.
             if glEventAction labelEvent = ''add'' then
               handle (ForceChangeLabelsRaw env b author (glEventCreatedAt labelEvent)
                         [glEventLabelName labelEvent] []
                         [(keyGitlabId, parseID (glEventID labelEvent))])
                 failWith (\<lambda>_. ok ())
             else if glEventAction labelEvent = ''remove'' then
               handle (ForceChangeLabelsRaw env b author (glEventCreatedAt labelEvent)
                         [] [glEventLabelName labelEvent]
                         [(keyGitlabId, parseID (glEventID labelEvent))])
                 failWith (\<lambda>_. ok ())
             else failWith (ErrorfMsg ''unexpected label event action'')))"

text \<open>
  The three inner loops of \<^verbatim>\<open>ImportAll\<close>: on the first error the error result is sent
  and the goroutine returns.
\<close>

fun notesLoop :: "env \<Rightarrow> nat \<Rightarrow> gitlabIssue \<Rightarrow> gitlabNote list \<Rightarrow> flow action" where
  "notesLoop env b issue [] = ok Continue"
| "notesLoop env b issue (note # notes) =
     handle (ensureNote env b issue note)
       (\<lambda>err. andThen (emit (NewImportError (Some (Errorf ''note creation: '' err))
                               (Itoa (glNoteID note)))) (\<lambda>_. ok Return))
       (\<lambda>_. notesLoop env b issue notes)"

fun labelEventsLoop :: "env \<Rightarrow> nat \<Rightarrow> gitlabLabelEvent list \<Rightarrow> flow action" where
  "labelEventsLoop env b [] = ok Continue"
| "labelEventsLoop env b (labelEvent # rest) =
     handle (ensureLabelEvent env b labelEvent)
       (\<lambda>err. andThen (emit (NewImportError (Some (Errorf ''label event creation: '' err))
                               (Itoa (glEventID labelEvent)))) (\<lambda>_. ok Return))
       (\<lambda>_. labelEventsLoop env b rest)"

definition whenContinue :: "flow action \<Rightarrow> flow action \<Rightarrow> flow action" where
  "whenContinue f g = andThen f (\<lambda>fl. case fl of Return \<Rightarrow> ok Return | Continue \<Rightarrow> g)"

definition importIssue_gitlab :: "env \<Rightarrow> gitlabIssueFeed \<Rightarrow> flow action" where
  "importIssue_gitlab env feed =
     handle (ensureIssue_gitlab env (glIssue feed))
       (\<lambda>err. andThen (BugCache_Id env None) (\<lambda>i.
               andThen (emit (NewImportError (Some (Errorf ''issue creation: '' err)) i)) (\<lambda>_.
               ok Return)))
       (\<lambda>b. onBug b (\<lambda>n.
          whenContinue (notesLoop env n (glIssue feed) (glNotes feed))
         (whenContinue (labelEventsLoop env n (glLabelEvents feed))
           (case glIteratorError feed of
              Some err \<Rightarrow>
                andThen (emit (NewImportError (Some (Errorf ''import error: '' err)) []))
                  (\<lambda>_. ok Return)
            | None \<Rightarrow>
                andThen (CommitAsNeeded env n) (\<lambda>cerr.
                  case cerr of
                    Some err \<Rightarrow>
                      andThen (emit (NewImportError (Some (Errorf ''bug commit: '' err)) []))
                        (\<lambda>_. ok Return)
                  | None \<Rightarrow> ok Continue)))))"

text \<open>
  The loop over the issues. \<open>ctx k\<close> is \<^verbatim>\<open>ctx.Err()\<close> at the check made for the issue at
  position \<open>k\<close>: \<open>None\<close> while the context is not done.
\<close>

fun issuesLoop_gitlab ::
  "env \<Rightarrow> (nat \<Rightarrow> error option) \<Rightarrow> nat \<Rightarrow> gitlabIssueFeed list \<Rightarrow> flow action" where
  "issuesLoop_gitlab env ctx k [] = ok Continue"
| "issuesLoop_gitlab env ctx k (feed # feeds) =
     (case ctx k of
        Some cause \<Rightarrow> andThen (emit (NewImportError (Some cause) [])) (\<lambda>_. ok Return)
      | None \<Rightarrow>
          whenContinue (importIssue_gitlab env feed)
            (issuesLoop_gitlab env ctx (Suc k) feeds))"

text \<open>
  \<^verbatim>\<open>ImportAll\<close> makes the channel and runs the loop in a goroutine that closes the channel
  when it returns (\<^verbatim>\<open>defer close\<close>); a panic is not recovered.
\<close>

definition endOfRun :: "flow outcome \<times> world \<Rightarrow> runStatus \<times> world" where
  "endOfRun r = (case r of (Panic, w) \<Rightarrow> (Crashed, w) | (_, w) \<Rightarrow> (StreamClosed, w))"

definition ImportAll_gitlab ::
  "env \<Rightarrow> (nat \<Rightarrow> error option) \<Rightarrow> gitlabIssueFeed list \<Rightarrow> world \<Rightarrow> runStatus \<times> world" where
  "ImportAll_gitlab env ctx feeds w =
     endOfRun (issuesLoop_gitlab env ctx 0 feeds (w\<lparr>out := []\<rparr>))"

section \<open>The GitHub importer (bridge/github/import.go)\<close>

definition keyOrigin :: string where "keyOrigin = ''origin''"
definition keyGithubId :: string where "keyGithubId = ''github-id''"
definition keyGithubUrl :: string where "keyGithubUrl = ''github-url''"
definition keyGithubLogin :: string where "keyGithubLogin = ''github-login''"

text \<open>
  Modelled from the spec: the target of the GitHub bridge is declared outside the files at
  hand; section 6 calls it the origin tag.
\<close>

definition githubTarget :: string where "githubTarget = ''github''"

text \<open>
  The remote records as \<^verbatim>\<open>import.go\<close> reads them. An actor is a pointer, nil for a deleted
  user; its name and email depend on its \<^verbatim>\<open>Typename\<close>. An id is the string that
  \<^verbatim>\<open>parseId\<close> prints, a time the Unix seconds taken from it, a pointer an option.
\<close>

record actor =
  actorLogin :: string
  actorAvatarUrl :: string
  actorTypename :: string
  actorUserName :: "string option"
  actorUserEmail :: string
  actorOrganizationName :: "string option"
  actorOrganizationEmail :: "string option"

record actorEvent =
  eventId :: string
  eventCreatedAt :: int
  eventActor :: "actor option"

record labelEvent = actorEvent +
  labelName :: string

record renamedTitleEvent = actorEvent +
  CurrentTitle :: string
  PreviousTitle :: string

record userContentEdit =
  editId :: string
  editCreatedAt :: int
  editEditor :: "actor option"
  editDeletedAt :: "int option"
  editDiff :: "string option"

record issueComment =
  commentNodeId :: string
  commentCreatedAt :: int
  commentAuthor :: "actor option"
  commentBody :: string
  commentUrl :: string

record timelineItem =
  Typename :: string
  IssueComment :: issueComment
  LabeledEvent :: labelEvent
  UnlabeledEvent :: labelEvent
  ClosedEvent :: actorEvent
  ReopenedEvent :: actorEvent
  RenamedTitleEvent :: renamedTitleEvent

record issueTimeline =
  issueNodeId :: string
  issueCreatedAt :: int
  issueAuthor :: "actor option"
  issueTitle :: string
  issueBody :: string
  issueUrl :: string

text \<open>
  The iterator is the data it yields: for each issue its edits and its timeline items, for
  each timeline item the edits of its comment.
\<close>

record githubTimelineFeed =
  ghItem :: timelineItem
  ghCommentEdits :: "userContentEdit list"

record githubIssueFeed =
  ghIssue :: issueTimeline
  ghIssueEdits :: "userContentEdit list"
  ghTimeline :: "githubTimelineFeed list"

definition parseId :: "string \<Rightarrow> string" where
  "parseId i = i"

definition getGhost :: "env \<Rightarrow> identity action" where
  "getGhost env =
     andThen (ResolveIdentityImmutableMetadata env keyGithubLogin ''ghost'') (\<lambda>r.
       case r of
         Inr i \<Rightarrow> ok i
       | Inl err \<Rightarrow>
           if isErrMultipleMatch err then failWith err
           else
             andThen (check (ghostQuery env)) (\<lambda>q.
             NewIdentityRaw env (case ghostName q of None \<Rightarrow> [] | Some n \<Rightarrow> n) []
               (ghostLogin q) (ghostAvatarUrl q) [(keyGithubLogin, ghostLogin q)]))"

definition actorName :: "actor \<Rightarrow> string" where
  "actorName a =
     (if actorTypename a = ''User'' then
        (case actorUserName a of None \<Rightarrow> [] | Some n \<Rightarrow> n)
      else if actorTypename a = ''Organization'' then
        (case actorOrganizationName a of None \<Rightarrow> [] | Some n \<Rightarrow> n)
      else [])"

definition actorEmail :: "actor \<Rightarrow> string" where
  "actorEmail a =
     (if actorTypename a = ''User'' then actorUserEmail a
      else if actorTypename a = ''Organization'' then
        (case actorOrganizationEmail a of None \<Rightarrow> [] | Some e \<Rightarrow> e)
      else [])"

definition ensurePerson :: "env \<Rightarrow> actor option \<Rightarrow> identity action" where
  "ensurePerson env actor =
     (case actor of
        None \<Rightarrow> getGhost env
      | Some a \<Rightarrow>
          andThen (ResolveIdentityImmutableMetadata env keyGithubLogin (actorLogin a)) (\<lambda>r.
            case r of
              Inr i \<Rightarrow> ok i
            | Inl err \<Rightarrow>
                if isErrMultipleMatch err then failWith err
                else
                  andThen countIdentity (\<lambda>_.
                  andThen (NewIdentityRaw env (actorName a) (actorEmail a) (actorLogin a)
                             (actorAvatarUrl a) [(keyGithubLogin, actorLogin a)]) (\<lambda>i.
                  andThen (emit (NewImportIdentity (identityId i))) (\<lambda>_.
                  ok i)))))"

text \<open>\<^verbatim>\<open>string(*edit.Diff)\<close>: the dereference panics on a nil pointer.\<close>

definition deref :: "'a option \<Rightarrow> 'a action" where
  "deref p = (case p of None \<Rightarrow> panicked | Some x \<Rightarrow> ok x)"

definition ensureCommentEdit ::
  "env \<Rightarrow> nat \<Rightarrow> string \<Rightarrow> userContentEdit \<Rightarrow> unit action" where
  "ensureCommentEdit env b target edit =
     andThen (ResolveOperationWithMetadata env b keyGithubId (parseId (editId edit)))
       (\<lambda>(hash, err).
         if err = None then emit (NewImportNothing [] ''edition already imported'')
         else if err \<noteq> Some ErrNoMatchingOp then returnErr err
         else
           andThen (ensurePerson env (editEditor edit)) (\<lambda>editor.
             if editDeletedAt edit \<noteq> None then
               emit (NewImportNothing []
                       (''comment deletion is not supported yet'' @ [CHR 0x0A]))
             else
               andThen (deref (editDiff edit)) (\<lambda>diff.
               andThen (check (Cleanup env diff)) (\<lambda>cleanText.
               andThen (EditCommentRaw env b editor (editCreatedAt edit) target cleanText
                          [(keyGithubId, parseId (editId edit))]) (\<lambda>op.
               andThen (opHash env op) (\<lambda>target.
               emit (NewImportCommentEdition target)))))))"

text \<open>
  The loop over the edits of an issue, with the position \<open>k\<close> of the edit and the bug
  pointer \<open>b\<close>, which the loop sets when it creates the bug.
\<close>

fun issueEditsLoop ::
  "env \<Rightarrow> issueTimeline \<Rightarrow> identity \<Rightarrow> nat \<Rightarrow> nat option \<Rightarrow> userContentEdit list \<Rightarrow>
   nat option action" where
  "issueEditsLoop env issue author k b [] = ok b"
| "issueEditsLoop env issue author k b (edit # edits) =
     (if k = 0 \<and> b \<noteq> None then
        andThen (emit (NewImportNothing [] ''bug already imported'')) (\<lambda>_.
        issueEditsLoop env issue author (Suc k) b edits)
      else
        andThen (deref (editDiff edit)) (\<lambda>diff.
        andThen (check (Cleanup env diff)) (\<lambda>cleanText.
          case b of
            None \<Rightarrow>
              andThen (NewBugRaw env author (issueCreatedAt issue) (issueTitle issue) cleanText
                         [(keyOrigin, githubTarget),
                          (keyGithubId, parseId (issueNodeId issue)),
                          (keyGithubUrl, issueUrl issue)]) (\<lambda>n.
              andThen countIssue (\<lambda>_.
              andThen (BugCache_Id env (Some n)) (\<lambda>i.
              andThen (emit (NewImportBug i)) (\<lambda>_.
              issueEditsLoop env issue author (Suc k) (Some n) edits))))
          | Some n \<Rightarrow>
              andThen (ResolveOperationWithMetadata env n keyGithubUrl (issueUrl issue))
                (\<lambda>(target, err).
                  if err \<noteq> None then andThen (returnErr err) (\<lambda>_. ok None)
                  else
                    andThen (ensureCommentEdit env n target edit) (\<lambda>_.
                    andThen (emit (NewImportCommentEdition target)) (\<lambda>_.
                    issueEditsLoop env issue author (Suc k) b edits))))))"

definition ensureIssue ::
  "env \<Rightarrow> issueTimeline \<Rightarrow> userContentEdit list \<Rightarrow> nat option action" where
  "ensureIssue env issue issueEdits =
     andThen (ensurePerson env (issueAuthor issue)) (\<lambda>author.
     andThen (ResolveBugCreateMetadata env keyGithubUrl (issueUrl issue)) (\<lambda>(b, err).
       if err \<noteq> None \<and> err \<noteq> Some ErrBugNotExist then
         andThen (returnErr err) (\<lambda>_. ok None)
       else if length issueEdits = 0 then
         (if err = Some ErrBugNotExist then
            andThen (check (Cleanup env (issueBody issue))) (\<lambda>cleanText.
            andThen (NewBugRaw env author (issueCreatedAt issue) (issueTitle issue) cleanText
                       [(keyOrigin, githubTarget),
                        (keyGithubId, parseId (issueNodeId issue)),
                        (keyGithubUrl, issueUrl issue)]) (\<lambda>n.
            andThen (BugCache_Id env (Some n)) (\<lambda>i.
            andThen (emit (NewImportBug i)) (\<lambda>_.
            andThen countIssue (\<lambda>_.
            ok (Some n))))))
          else
            andThen (emit (NewImportNothing [] ''bug already imported'')) (\<lambda>_.
            ok b))
       else issueEditsLoop env issue author 0 b issueEdits))"

text \<open>
  The loop over the edits of a comment, with the position \<open>k\<close> of the edit and the hash
  \<open>target\<close> of the comment, empty until the comment exists.
\<close>

fun commentEditsLoop ::
  "env \<Rightarrow> nat \<Rightarrow> issueComment \<Rightarrow> nat \<Rightarrow> string \<Rightarrow> userContentEdit list \<Rightarrow> unit action" where
  "commentEditsLoop env b item k target [] = ok ()"
| "commentEditsLoop env b item k target (edit # edits) =
     (if k = 0 \<and> target \<noteq> [] then
        andThen (emit (NewImportNothing [] ''comment already imported'')) (\<lambda>_.
        commentEditsLoop env b item (Suc k) target edits)
      else
        andThen (ensurePerson env (editEditor edit)) (\<lambda>editor.
          if target = [] then
            andThen (deref (editDiff edit)) (\<lambda>diff.
            andThen (check (Cleanup env diff)) (\<lambda>cleanText.
            andThen (AddCommentRaw env b editor (editCreatedAt edit) cleanText
                       [(keyGithubId, parseId (commentNodeId item)),
                        (keyGithubUrl, commentUrl item)]) (\<lambda>op.
            andThen (opHash env op) (\<lambda>target.
            andThen (emit (NewImportComment target)) (\<lambda>_.
            commentEditsLoop env b item (Suc k) target edits)))))
          else
            andThen (ensureCommentEdit env b target edit) (\<lambda>_.
            commentEditsLoop env b item (Suc k) target edits)))"

definition ensureTimelineComment ::
  "env \<Rightarrow> nat \<Rightarrow> issueComment \<Rightarrow> userContentEdit list \<Rightarrow> unit action" where
  "ensureTimelineComment env b item edits =
     andThen (ensurePerson env (commentAuthor item)) (\<lambda>author.
     andThen (ResolveOperationWithMetadata env b keyGithubId (parseId (commentNodeId item)))
       (\<lambda>(target, err).
     andThen (if err = None then emit (NewImportNothing [] ''comment already imported'')
              else ok ()) (\<lambda>_.
       if err \<noteq> None \<and> err \<noteq> Some ErrNoMatchingOp then returnErr err
       else if length edits = 0 then
         (if err = Some ErrNoMatchingOp then
            andThen (check (Cleanup env (commentBody item))) (\<lambda>cleanText.
            andThen (AddCommentRaw env b author (commentCreatedAt item) cleanText
                       [(keyGithubId, parseId (commentNodeId item)),
                        (keyGithubUrl, parseId (commentUrl item))]) (\<lambda>op.
            andThen (opHash env op) (\<lambda>hash.
            emit (NewImportComment hash))))
          else emit (NewImportNothing [] ''comment already imported''))
       else commentEditsLoop env b item 0 target edits)))"

definition ensureTimelineItem ::
  "env \<Rightarrow> nat \<Rightarrow> timelineItem \<Rightarrow> userContentEdit list \<Rightarrow> unit action" where
  "ensureTimelineItem env b item commentEdits =
     (if Typename item = ''IssueComment'' then
        handle (ensureTimelineComment env b (IssueComment item) commentEdits)
          (\<lambda>err. failWith (Errorf ''timeline comment creation: '' err))
          (\<lambda>_. ok ())
      else if Typename item = ''LabeledEvent'' then
        (let i = parseId (eventId (LabeledEvent item)) in
         andThen (ResolveOperationWithMetadata env b keyGithubId i) (\<lambda>(hash, err).
           if err = None then
             emit (NewImportNothing [] (''operation already imported: '' @ Typename item))
           else if err \<noteq> Some ErrNoMatchingOp then returnErr err
           else
             andThen (ensurePerson env (eventActor (LabeledEvent item))) (\<lambda>author.
             andThen (ForceChangeLabelsRaw env b author (eventCreatedAt (LabeledEvent item))
                        [labelName (LabeledEvent item)] [] [(keyGithubId, i)]) (\<lambda>op.
             andThen (opHash env op) (\<lambda>hash.
             emit (NewImportLabelChange hash))))))
      else if Typename item = ''UnlabeledEvent'' then
        (let i = parseId (eventId (UnlabeledEvent item)) in
         andThen (ResolveOperationWithMetadata env b keyGithubId i) (\<lambda>(hash, err).
           if err = None then
             emit (NewImportNothing [] (''operation already imported: '' @ Typename item))
           else if err \<noteq> Some ErrNoMatchingOp then returnErr err
           else
             andThen (ensurePerson env (eventActor (UnlabeledEvent item))) (\<lambda>author.
             andThen (ForceChangeLabelsRaw env b author (eventCreatedAt (UnlabeledEvent item))
                        [] [labelName (UnlabeledEvent item)] [(keyGithubId, i)]) (\<lambda>op.
             andThen (opHash env op) (\<lambda>hash.
             emit (NewImportLabelChange hash))))))
      else if Typename item = ''ClosedEvent'' then
        (let i = parseId (eventId (ClosedEvent item)) in
         andThen (ResolveOperationWithMetadata env b keyGithubId i) (\<lambda>(hash, err).
           if err \<noteq> Some ErrNoMatchingOp then returnErr err
           else if err = None then
             emit (NewImportNothing [] (''operation already imported: '' @ Typename item))
           else
             andThen (ensurePerson env (eventActor (ClosedEvent item))) (\<lambda>author.
             andThen (CloseRaw env b author (eventCreatedAt (ClosedEvent item))
                        [(keyGithubId, i)]) (\<lambda>op.
             andThen (opHash env op) (\<lambda>hash.
             emit (NewImportStatusChange hash))))))
      else if Typename item = ''ReopenedEvent'' then
        (let i = parseId (eventId (ReopenedEvent item)) in
         andThen (ResolveOperationWithMetadata env b keyGithubId i) (\<lambda>(hash, err).
           if err \<noteq> Some ErrNoMatchingOp then returnErr err
           else if err = None then
             emit (NewImportNothing [] (''operation already imported: '' @ Typename item))
           else
             andThen (ensurePerson env (eventActor (ReopenedEvent item))) (\<lambda>author.
             andThen (OpenRaw env b author (eventCreatedAt (ReopenedEvent item))
                        [(keyGithubId, i)]) (\<lambda>op.
             andThen (opHash env op) (\<lambda>hash.
             emit (NewImportStatusChange hash))))))
      else if Typename item = ''RenamedTitleEvent'' then
        (let i = parseId (eventId (RenamedTitleEvent item)) in
         andThen (ResolveOperationWithMetadata env b keyGithubId i) (\<lambda>(hash, err).
           if err \<noteq> Some ErrNoMatchingOp then returnErr err
           else if err = None then
             emit (NewImportNothing [] (''operation already imported: '' @ Typename item))
           else
             andThen (ensurePerson env (eventActor (RenamedTitleEvent item))) (\<lambda>author.
             andThen (SetTitleRaw env b author (eventCreatedAt (RenamedTitleEvent item))
                        (CurrentTitle (RenamedTitleEvent item)) [(keyGithubId, i)]) (\<lambda>op.
             andThen (opHash env op) (\<lambda>hash.
             emit (NewImportTitleEdition hash))))))
      else emit (NewImportNothing [] (''ignoring timeline type: '' @ Typename item)))"

fun timelineLoop :: "env \<Rightarrow> nat \<Rightarrow> githubTimelineFeed list \<Rightarrow> flow action" where
  "timelineLoop env b [] = ok Continue"
| "timelineLoop env b (t # ts) =
     handle (ensureTimelineItem env b (ghItem t) (ghCommentEdits t))
       (\<lambda>err. andThen (emit (NewImportError (Some (Errorf ''timeline item creation: '' err)) []))
                 (\<lambda>_. ok Return))
       (\<lambda>_. timelineLoop env b ts)"

definition importIssue :: "env \<Rightarrow> githubIssueFeed \<Rightarrow> flow action" where
  "importIssue env feed =
     handle (ensureIssue env (ghIssue feed) (ghIssueEdits feed))
       (\<lambda>err. andThen (emit (NewImportError (Some (Errorf ''issue creation: '' err)) []))
                 (\<lambda>_. ok Return))
       (\<lambda>b. onBug b (\<lambda>n.
          whenContinue (timelineLoop env n (ghTimeline feed))
            (andThen (CommitAsNeeded env n) (\<lambda>cerr.
               case cerr of
                 Some err \<Rightarrow>
                   andThen (emit (NewImportError (Some (Errorf ''bug commit: '' err)) []))
                     (\<lambda>_. ok Return)
               | None \<Rightarrow> ok Continue))))"

fun issuesLoop ::
  "env \<Rightarrow> (nat \<Rightarrow> error option) \<Rightarrow> nat \<Rightarrow> githubIssueFeed list \<Rightarrow> flow action" where
  "issuesLoop env ctx k [] = ok Continue"
| "issuesLoop env ctx k (feed # feeds) =
     (case ctx k of
        Some cause \<Rightarrow> andThen (emit (NewImportError (Some cause) [])) (\<lambda>_. ok Return)
      | None \<Rightarrow> whenContinue (importIssue env feed) (issuesLoop env ctx (Suc k) feeds))"

text \<open>
  \<open>iteratorError\<close> is what \<^verbatim>\<open>iterator.Error()\<close> answers once \<^verbatim>\<open>NextIssue\<close> has said there is
  no further issue.
\<close>

definition ImportAll ::
  "env \<Rightarrow> (nat \<Rightarrow> error option) \<Rightarrow> githubIssueFeed list \<Rightarrow> error option \<Rightarrow> world \<Rightarrow>
   runStatus \<times> world" where
  "ImportAll env ctx feeds iteratorError w =
     endOfRun
       (whenContinue (issuesLoop env ctx 0 feeds)
          (case iteratorError of
             Some err \<Rightarrow>
               andThen (emit (NewImportError (Some (Errorf ''bug commit: '' err)) []))
                 (\<lambda>_. ok Return)
           | None \<Rightarrow> ok Continue)
          (w\<lparr>out := []\<rparr>))"

section \<open>The Launchpad importer (bridge/launchpad/import.go)\<close>

definition keyLaunchpadID :: string where "keyLaunchpadID = ''launchpad-id''"
definition keyLaunchpadLogin :: string where "keyLaunchpadLogin = ''launchpad-login''"

record LPPerson =
  lpName :: string
  lpLogin :: string

record LPMessage =
  lpMessageID :: string
  lpContent :: string
  lpMessageCreatedAt :: string
  lpMessageOwner :: LPPerson

record LPBug =
  lpID :: int
  lpTitle :: string
  lpDescription :: string
  lpOwner :: LPPerson
  lpCreatedAt :: string
  lpMessages :: "LPMessage list"

text \<open>The Launchpad client: the outcome of \<^verbatim>\<open>Init\<close> and of \<^verbatim>\<open>SearchTasks\<close>.\<close>

record launchpadAPI =
  lpInit :: "error option"
  lpSearchTasks :: "error + LPBug list"

definition ensurePerson_launchpad :: "env \<Rightarrow> LPPerson \<Rightarrow> identity action" where
  "ensurePerson_launchpad env owner =
     andThen (ResolveIdentityImmutableMetadata env keyLaunchpadLogin (lpLogin owner)) (\<lambda>r.
       case r of
         Inr i \<Rightarrow> ok i
       | Inl err \<Rightarrow>
           if isErrMultipleMatch err then failWith err
           else NewIdentityRaw env (lpName owner) [] (lpLogin owner) []
                  [(keyLaunchpadLogin, lpLogin owner)])"

fun messagesLoop :: "env \<Rightarrow> nat option \<Rightarrow> string \<Rightarrow> LPMessage list \<Rightarrow> flow action" where
  "messagesLoop env b lpBugID [] = ok Continue"
| "messagesLoop env b lpBugID (lpMessage # rest) =
     andThen (onBug b (\<lambda>n.
                ResolveOperationWithMetadata env n keyLaunchpadID (lpMessageID lpMessage)))
       (\<lambda>(hash, err).
         if err \<noteq> None \<and> err \<noteq> Some ErrNoMatchingOp then
           andThen (emit (NewImportError err
                            (''failed to fetch comments for bug #'' @ lpBugID))) (\<lambda>_.
           ok Return)
         else if err = None then messagesLoop env b lpBugID rest
         else
           handle (ensurePerson_launchpad env (lpMessageOwner lpMessage))
             (\<lambda>err. andThen (emit (NewImportError (Some err) [])) (\<lambda>_. ok Return))
             (\<lambda>owner.
           handle (onBug b (\<lambda>n.
                     AddCommentRaw env n owner (parseUnix env (lpMessageCreatedAt lpMessage))
                       (lpContent lpMessage) [(keyLaunchpadID, lpMessageID lpMessage)]))
             (\<lambda>err. andThen (emit (NewImportError (Some err)
                                     (''failed to add comment to bug #'' @ lpBugID))) (\<lambda>_.
                     ok Return))
             (\<lambda>op.
           handle (opHash env op)
             (\<lambda>err. andThen (emit (NewImportError (Some err) [])) (\<lambda>_. ok Return))
             (\<lambda>hash.
           andThen (emit (NewImportComment hash)) (\<lambda>_.
           messagesLoop env b lpBugID rest)))))"

text \<open>
  The body of the loop for one bug. The variable \<^verbatim>\<open>err\<close> that the test
  \<^verbatim>\<open>err == bug.ErrBugNotExist\<close> and the empty-messages result read is the one declared with
  \<^verbatim>\<open>owner\<close> by \<^verbatim>\<open>owner, err := li.ensurePerson(...)\<close>, whose non-nil value has just returned:
  it is nil there, and the result of the lookup of the bug is out of reach. The
  \<^verbatim>\<open>fmt.Println\<close> of the other branch writes to the standard output, which is not part of
  the world.
\<close>

definition importBug_launchpad :: "env \<Rightarrow> LPBug \<Rightarrow> flow action" where
  "importBug_launchpad env lpBug =
     (let lpBugID = Itoa (lpID lpBug) in
      andThen (ResolveBugCreateMetadata env keyLaunchpadID lpBugID) (\<lambda>(b, err).
        if err \<noteq> None \<and> err \<noteq> Some ErrBugNotExist then
          andThen (emit (NewImportError err lpBugID)) (\<lambda>_. ok Return)
        else
          handle (ensurePerson_launchpad env (lpOwner lpBug))
            (\<lambda>err. andThen (emit (NewImportError (Some err) lpBugID)) (\<lambda>_. ok Return))
            (\<lambda>owner.
               let err = (None :: error option) in
               andThen
                 (if err = Some ErrBugNotExist then
                    handle (NewBugRaw env owner (parseUnix env (lpCreatedAt lpBug))
                              (lpTitle lpBug) (lpDescription lpBug)
                              [(keyLaunchpadID, lpBugID)])
                      (\<lambda>e. andThen (emit (NewImportError (Some e)
                                             (''failed to add bug id #'' @ lpBugID))) (\<lambda>_.
                            ok (Return, b, Some e)))
                      (\<lambda>n. andThen (BugCache_Id env (Some n)) (\<lambda>i.
                            andThen (emit (NewImportBug i)) (\<lambda>_.
                            ok (Continue, Some n, None))))
                  else ok (Continue, b, err))
                 (\<lambda>(fl, b, err).
                    case fl of
                      Return \<Rightarrow> ok Return
                    | Continue \<Rightarrow>
                        if length (lpMessages lpBug) = 0 then
                          andThen (emit (NewImportError err
                                           (''failed to fetch comments for bug #'' @ lpBugID)))
                            (\<lambda>_. ok Return)
                        else
                          whenContinue (messagesLoop env b lpBugID (tl (lpMessages lpBug)))
                            (andThen (onBug b (\<lambda>n. CommitAsNeeded env n)) (\<lambda>cerr.
                               case cerr of
                                 Some e \<Rightarrow>
                                   andThen (emit (NewImportError (Some e) [])) (\<lambda>_. ok Return)
                               | None \<Rightarrow> ok Continue))))))"

text \<open>The loop over the bugs: on a done context the goroutine returns at once.\<close>

fun bugsLoop_launchpad ::
  "env \<Rightarrow> (nat \<Rightarrow> error option) \<Rightarrow> nat \<Rightarrow> LPBug list \<Rightarrow> flow action" where
  "bugsLoop_launchpad env ctx k [] = ok Continue"
| "bugsLoop_launchpad env ctx k (lpBug # rest) =
     (case ctx k of
        Some cause \<Rightarrow> ok Return
      | None \<Rightarrow>
          whenContinue (importBug_launchpad env lpBug) (bugsLoop_launchpad env ctx (Suc k) rest))"

text \<open>
  \<^verbatim>\<open>ImportAll\<close> returns the error of the client before any goroutine starts; the goroutine
  never closes the channel.
\<close>

definition endOfRun_launchpad :: "flow outcome \<times> world \<Rightarrow> runStatus \<times> world" where
  "endOfRun_launchpad r =
     (case r of (Panic, w) \<Rightarrow> (Crashed, w) | (_, w) \<Rightarrow> (StreamLeftOpen, w))"

definition ImportAll_launchpad ::
  "env \<Rightarrow> (nat \<Rightarrow> error option) \<Rightarrow> launchpadAPI \<Rightarrow> world \<Rightarrow> error + runStatus \<times> world" where
  "ImportAll_launchpad env ctx api w =
     (case lpInit api of
        Some err \<Rightarrow> Inl err
      | None \<Rightarrow>
          (case lpSearchTasks api of
             Inl err \<Rightarrow> Inl err
           | Inr lpBugs \<Rightarrow>
               Inr (endOfRun_launchpad (bugsLoop_launchpad env ctx 0 lpBugs (w\<lparr>out := []\<rparr>)))))"

text \<open>Two identities for the concrete runs below.\<close>

definition alice :: identity where
  "alice = \<lparr>identityId = ''id-alice'', identityName = ''Alice'', identityEmail = [],
            identityLogin = ''alice'', identityAvatar = [],
            identityMetadata = [(''github-login'', ''alice'')]\<rparr>"

definition bob :: identity where
  "bob = \<lparr>identityId = ''id-bob'', identityName = ''Bob'', identityEmail = [],
          identityLogin = ''bob'', identityAvatar = [],
          identityMetadata = [(''github-login'', ''bob'')]\<rparr>"

section \<open>Results on the stream\<close>

text \<open>
  An error result is one built by \<^verbatim>\<open>NewImportError\<close>: it carries an error, or at least the
  zero event that no other constructor leaves. A stream has its error last when no result
  follows an error result.
\<close>

definition isErrorResult :: "ImportResult \<Rightarrow> bool" where
  "isErrorResult r \<longleftrightarrow> Err r \<noteq> None \<or> Event r = ImportEventZero"

definition errorLast :: "ImportResult list \<Rightarrow> bool" where
  "errorLast rs \<longleftrightarrow> (\<forall>k < length rs. isErrorResult (rs ! k) \<longrightarrow> Suc k = length rs)"

text \<open>
  Two properties of steps, for the proofs: a quiet step sends no error result; an orderly
  step sends an error result only as the last thing it sends, and not if it goes on.
\<close>

definition quiet :: "'a action \<Rightarrow> bool" where
  "quiet f \<longleftrightarrow>
     (\<forall>w. \<exists>new. out (snd (f w)) = out w @ new \<and> (\<forall>r \<in> set new. \<not> isErrorResult r))"

definition orderly :: "flow action \<Rightarrow> bool" where
  "orderly f \<longleftrightarrow>
     (\<forall>w. \<exists>new. out (snd (f w)) = out w @ new \<and>
        (if fst (f w) = Ok Continue then \<forall>r \<in> set new. \<not> isErrorResult r
         else \<forall>r \<in> set (butlast new). \<not> isErrorResult r))"

section \<open>Concrete runs\<close>

text \<open>
  A configuration in which no call into the store fails, with a stand-in content hash
  that prints the kind of the operation and its time.
\<close>

definition payloadTag :: "payload \<Rightarrow> string" where
  "payloadTag p =
     (case p of
        CreateOp _ _ \<Rightarrow> ''create''
      | AddCommentOp _ \<Rightarrow> ''comment''
      | EditCommentOp _ _ \<Rightarrow> ''edit''
      | SetTitleOp _ \<Rightarrow> ''title''
      | SetStatusOp _ \<Rightarrow> ''status''
      | LabelChangeOp _ _ \<Rightarrow> ''label'')"

definition env0 :: env where
  "env0 =
     \<lparr>conf = [(''project-id'', ''5'')],
      Hash = (\<lambda>op. payloadTag (opPayload op) @ ''@'' @ Itoa (opUnixTime op)),
      hashErr = (\<lambda>w op. None),
      identityHash = (\<lambda>i. ''id-'' @ identityLogin i),
      Cleanup = (\<lambda>s. Inr s),
      parseUnix = (\<lambda>s. 0),
      GetUser = (\<lambda>i. Inr \<lparr>userName = ''User'', userPublicEmail = [],
                            userUsername = ''u'' @ Itoa i, userAvatarURL = []\<rparr>),
      ghostQuery = Inr \<lparr>ghostName = None, ghostLogin = ''ghost'', ghostAvatarUrl = []\<rparr>,
      identityLookupErr = (\<lambda>w k v. None),
      bugLookupErr = (\<lambda>w k v. None),
      opLookupErr = (\<lambda>w k v. None),
      identityErr = (\<lambda>w i. None),
      appendErr = (\<lambda>w op. None),
      commitErr = (\<lambda>w n. None),
      nilBugId = None\<rparr>"

definition world0 :: world where
  "world0 = \<lparr>identities = [], bugs = [], out = [], importedIssues = 0, importedIdentities = 0\<rparr>"

definition notDone :: "nat \<Rightarrow> error option" where
  "notDone k = None"

text \<open>GitLab: one issue, and notes that close it, comment on it, and change its description.\<close>

definition issue1 :: gitlabIssue where
  "issue1 =
     \<lparr>glIssueID = 1, glIssueAuthorID = 3, glIssueWebURL = ''https://gitlab.example/p/issues/1'',
      glIssueDescription = ''desc'', glIssueTitle = ''Bug A'', glIssueCreatedAt = 100\<rparr>"

definition closedNote :: gitlabNote where
  "closedNote =
     \<lparr>glNoteID = 7, glNoteAuthorID = 3, glNoteCreatedAt = 200, glNoteUpdatedAt = 200,
      glNoteType = NOTE_CLOSED, glNoteBody = [], glNoteTypeText = ''closed''\<rparr>"

definition commentNote :: gitlabNote where
  "commentNote =
     \<lparr>glNoteID = 8, glNoteAuthorID = 3, glNoteCreatedAt = 300, glNoteUpdatedAt = 300,
      glNoteType = NOTE_COMMENT, glNoteBody = ''first comment'', glNoteTypeText = ''comment''\<rparr>"

definition descriptionNote :: gitlabNote where
  "descriptionNote =
     \<lparr>glNoteID = 9, glNoteAuthorID = 3, glNoteCreatedAt = 400, glNoteUpdatedAt = 400,
      glNoteType = NOTE_DESCRIPTION_CHANGED, glNoteBody = [],
      glNoteTypeText = ''description changed''\<rparr>"

definition gitlabFeed :: "gitlabIssue \<Rightarrow> gitlabNote list \<Rightarrow> gitlabIssueFeed list" where
  "gitlabFeed issue ns =
     [\<lparr>glIssue = issue, glNotes = ns, glLabelEvents = [], glIteratorError = None\<rparr>]"

definition labelAdded :: gitlabLabelEvent where
  "labelAdded =
     \<lparr>glEventID = 11, glEventUserID = 3, glEventAction = ''add'', glEventLabelName = ''bug'',
      glEventCreatedAt = 500\<rparr>"

text \<open>GitHub: one issue by alice, closed by alice.\<close>

definition aliceActor :: actor where
  "aliceActor =
     \<lparr>actorLogin = ''alice'', actorAvatarUrl = [], actorTypename = ''User'',
      actorUserName = Some ''Alice'', actorUserEmail = [], actorOrganizationName = None,
      actorOrganizationEmail = None\<rparr>"

definition issueG :: issueTimeline where
  "issueG =
     \<lparr>issueNodeId = ''I1'', issueCreatedAt = 100, issueAuthor = Some aliceActor,
      issueTitle = ''Bug A'', issueBody = ''desc'',
      issueUrl = ''https://github.example/r/issues/1''\<rparr>"

definition zeroEvent :: actorEvent where
  "zeroEvent = \<lparr>eventId = [], eventCreatedAt = 0, eventActor = None\<rparr>"

definition zeroItem :: timelineItem where
  "zeroItem =
     \<lparr>Typename = [],
      IssueComment = \<lparr>commentNodeId = [], commentCreatedAt = 0, commentAuthor = None,
                      commentBody = [], commentUrl = []\<rparr>,
      LabeledEvent = \<lparr>eventId = [], eventCreatedAt = 0, eventActor = None, labelName = []\<rparr>,
      UnlabeledEvent = \<lparr>eventId = [], eventCreatedAt = 0, eventActor = None, labelName = []\<rparr>,
      ClosedEvent = zeroEvent,
      ReopenedEvent = zeroEvent,
      RenamedTitleEvent = \<lparr>eventId = [], eventCreatedAt = 0, eventActor = None,
                           CurrentTitle = [], PreviousTitle = []\<rparr>\<rparr>"

definition closedItem :: timelineItem where
  "closedItem =
     zeroItem\<lparr>Typename := ''ClosedEvent'',
              ClosedEvent := \<lparr>eventId = ''E7'', eventCreatedAt = 200,
                              eventActor = Some aliceActor\<rparr>\<rparr>"

definition githubFeed :: "githubIssueFeed list" where
  "githubFeed =
     [\<lparr>ghIssue = issueG, ghIssueEdits = [],
       ghTimeline = [\<lparr>ghItem = closedItem, ghCommentEdits = []\<rparr>]\<rparr>]"

text \<open>Launchpad: one bug for which no message was fetched.\<close>

definition lpBug1 :: LPBug where
  "lpBug1 =
     \<lparr>lpID = 1, lpTitle = ''Bug A'', lpDescription = ''desc'',
      lpOwner = \<lparr>lpName = ''Carol'', lpLogin = ''carol''\<rparr>,
      lpCreatedAt = ''2019-07-01T00:00:00Z'', lpMessages = []\<rparr>"

text \<open>A repository in which two identities hold the same GitHub login.\<close>

definition twoAlices :: world where
  "twoAlices = world0\<lparr>identities := [alice, alice\<lparr>identityId := ''id-alice-2''\<rparr>]\<rparr>"

definition carol :: identity where
  "carol = \<lparr>identityId = ''id-carol'', identityName = ''Carol'', identityEmail = [],
            identityLogin = ''carol'', identityAvatar = [],
            identityMetadata = [(''launchpad-login'', ''carol'')]\<rparr>"


text \<open>The identities of the repository that hold a pair of immutable metadata.\<close>

definition holders :: "world \<Rightarrow> string \<Rightarrow> string \<Rightarrow> identity list" where
  "holders w key v = filter (\<lambda>i. hasMetadata (identityMetadata i) key v) (identities w)"

text \<open>The repository after one and after two GitLab imports of the closed issue.\<close>

definition gitlabClosedOnce :: world where
  "gitlabClosedOnce = snd (ImportAll_gitlab env0 notDone (gitlabFeed issue1 [closedNote]) world0)"

definition gitlabClosedTwice :: world where
  "gitlabClosedTwice =
     snd (ImportAll_gitlab env0 notDone (gitlabFeed issue1 [closedNote]) gitlabClosedOnce)"

text \<open>The repository after a GitLab import of the issue without notes.\<close>

definition gitlabImported :: world where
  "gitlabImported = snd (ImportAll_gitlab env0 notDone (gitlabFeed issue1 []) world0)"

text \<open>
  The repository after a second GitLab import, the description of the issue having
  changed.
\<close>

definition gitlabDescriptionChanged :: world where
  "gitlabDescriptionChanged =
     snd (ImportAll_gitlab env0 notDone
            (gitlabFeed (issue1\<lparr>glIssueDescription := ''desc v2''\<rparr>) [descriptionNote])
            gitlabImported)"

text \<open>The repository after a GitLab import of the issue with one label event.\<close>

definition gitlabLabelled :: world where
  "gitlabLabelled =
     snd (ImportAll_gitlab env0 notDone
            [\<lparr>glIssue = issue1, glNotes = [], glLabelEvents = [labelAdded],
              glIteratorError = None\<rparr>] world0)"

text \<open>The repository after a GitLab import of the issue with one comment.\<close>

definition gitlabCommented :: world where
  "gitlabCommented =
     snd (ImportAll_gitlab env0 notDone (gitlabFeed issue1 [commentNote]) world0)"

text \<open>The repository after one GitHub import of the closed issue.\<close>

definition githubClosedOnce :: world where
  "githubClosedOnce = snd (ImportAll env0 notDone githubFeed None world0)"

section \<open>Properties of the snapshot\<close>

lemma hasId_iff: "hasId xs i \<longleftrightarrow> (\<exists>a \<in> set xs. identityId a = i)"
  by (induction xs) auto

lemma distinct_ids_snoc:
  "distinct (map identityId xs) \<Longrightarrow> \<not> hasId xs (identityId a) \<Longrightarrow>
   distinct (map identityId (xs @ [a]))"
  by (auto simp: hasId_iff)

lemma addActor_distinct:
  "distinct (map identityId (Actors snap)) \<Longrightarrow>
   distinct (map identityId (Actors (addActor a snap)))"
  unfolding addActor_def using distinct_ids_snoc by simp

lemma addParticipant_distinct:
  "distinct (map identityId (Participants snap)) \<Longrightarrow>
   distinct (map identityId (Participants (addParticipant p snap)))"
  unfolding addParticipant_def using distinct_ids_snoc by simp

lemma addActor_Participants: "Participants (addActor a snap) = Participants snap"
  by (simp add: addActor_def)

lemma addParticipant_Actors: "Actors (addParticipant p snap) = Actors snap"
  by (simp add: addParticipant_def)

lemma addCalls_distinct:
  "distinct (map identityId (Actors snap)) \<Longrightarrow>
   distinct (map identityId (Participants snap)) \<Longrightarrow>
   distinct (map identityId (Actors (addCalls cs snap))) \<and>
   distinct (map identityId (Participants (addCalls cs snap)))"
proof (induction cs snap rule: addCalls.induct)
  case (1 snap)
  then show ?case by simp
next
  case (2 a cs snap)
  then show ?case
    by (simp add: addActor_distinct addActor_Participants)
next
  case (3 p cs snap)
  then show ?case
    by (simp add: addParticipant_distinct addParticipant_Actors)
qed

text \<open>
  C9. On a snapshot whose \<open>Operations\<close> list is not empty, \<open>GetCreateMetadata\<close> returns
  the metadata lookup of the first operation. The precondition is needed: on an empty list
  the unguarded index \<^verbatim>\<open>Operations[0]\<close> panics, whereas \<open>LastEditTime\<close> and
  \<open>LastEditUnix\<close> return on every snapshot and give 0 on the empty one.
\<close>

theorem GetCreateMetadata_first_operation:
  "(Operations snap \<noteq> [] \<longrightarrow>
      GetCreateMetadata snap key = Some (GetMetadata (hd (Operations snap)) key)) \<and>
   (Operations snap = [] \<longrightarrow>
      GetCreateMetadata snap key = None \<and>
      LastEditTime snap = Some 0 \<and> LastEditUnix snap = Some 0) \<and>
   LastEditTime snap \<noteq> None \<and> LastEditUnix snap \<noteq> None"
  by (cases "Operations snap")
     (auto simp: GetCreateMetadata_def LastEditTime_def LastEditUnix_def index_def)

theorem GetCreateMetadata_first_operation_witness:
  "GetCreateMetadata
     (emptySnapshot\<lparr>Operations :=
        [\<lparr>opAuthor = ''a'', opUnixTime = 7, opPayload = CreateOp ''t'' ''b'',
          opMetadata = [(''github-id'', ''42'')]\<rparr>]\<rparr>) ''github-id'' = Some (''42'', True) \<and>
   GetCreateMetadata emptySnapshot ''github-id'' = None \<and>
   LastEditUnix emptySnapshot = Some 0"
  using GetCreateMetadata_first_operation
          [of "emptySnapshot\<lparr>Operations :=
                 [\<lparr>opAuthor = ''a'', opUnixTime = 7, opPayload = CreateOp ''t'' ''b'',
                   opMetadata = [(''github-id'', ''42'')]\<rparr>]\<rparr>" "''github-id''"]
        GetCreateMetadata_first_operation [of emptySnapshot "''github-id''"]
  by (simp add: emptySnapshot_def GetMetadata_def)

text \<open>
  C10. However \<open>addActor\<close> and \<open>addParticipant\<close> are called, starting from a snapshot
  whose two lists hold each id once (the empty snapshot is one), every id stays at most
  once in \<open>Actors\<close> and in \<open>Participants\<close>; adding an identity whose id is present
  changes nothing; and \<open>HasParticipant\<close> holds exactly of the ids of the participants.
\<close>

theorem add_calls_keep_ids_unique:
  "distinct (map identityId (Actors (addCalls cs emptySnapshot))) \<and>
   distinct (map identityId (Participants (addCalls cs emptySnapshot))) \<and>
   (distinct (map identityId (Actors snap)) \<and> distinct (map identityId (Participants snap)) \<longrightarrow>
      distinct (map identityId (Actors (addCalls cs snap))) \<and>
      distinct (map identityId (Participants (addCalls cs snap)))) \<and>
   ((\<exists>x \<in> set (Actors snap). identityId x = identityId a) \<longrightarrow> addActor a snap = snap) \<and>
   ((\<exists>x \<in> set (Participants snap). identityId x = identityId a) \<longrightarrow>
      addParticipant a snap = snap) \<and>
   (HasParticipant snap i \<longleftrightarrow> (\<exists>p \<in> set (Participants snap). identityId p = i))"
proof -
  have e: "distinct (map identityId (Actors emptySnapshot))"
          "distinct (map identityId (Participants emptySnapshot))"
    by (simp_all add: emptySnapshot_def)
  show ?thesis
    using addCalls_distinct [OF e, of cs] addCalls_distinct [of snap cs]
    by (simp add: addActor_def addParticipant_def HasParticipant_def hasId_iff)
qed

theorem add_calls_keep_ids_unique_witness:
  "distinct (map identityId (Actors (emptySnapshot\<lparr>Actors := [alice], Participants := [alice]\<rparr>))) \<and>
   distinct (map identityId
     (Participants (emptySnapshot\<lparr>Actors := [alice], Participants := [alice]\<rparr>))) \<and>
   (\<exists>x \<in> set (Actors (emptySnapshot\<lparr>Actors := [alice], Participants := [alice]\<rparr>)).
      identityId x = identityId (alice\<lparr>identityName := ''Alice B''\<rparr>)) \<and>
   addActor (alice\<lparr>identityName := ''Alice B''\<rparr>)
     (emptySnapshot\<lparr>Actors := [alice], Participants := [alice]\<rparr>) =
     emptySnapshot\<lparr>Actors := [alice], Participants := [alice]\<rparr> \<and>
   addParticipant (alice\<lparr>identityName := ''Alice B''\<rparr>)
     (emptySnapshot\<lparr>Actors := [alice], Participants := [alice]\<rparr>) =
     emptySnapshot\<lparr>Actors := [alice], Participants := [alice]\<rparr> \<and>
   HasParticipant (emptySnapshot\<lparr>Actors := [alice], Participants := [alice]\<rparr>) ''id-alice'' \<and>
   distinct (map identityId (Participants
     (addCalls [AddParticipant (alice\<lparr>identityName := ''Alice B''\<rparr>), AddParticipant bob]
        (emptySnapshot\<lparr>Actors := [alice], Participants := [alice]\<rparr>))))"
  using add_calls_keep_ids_unique
          [of "[AddParticipant (alice\<lparr>identityName := ''Alice B''\<rparr>), AddParticipant bob]"
              "emptySnapshot\<lparr>Actors := [alice], Participants := [alice]\<rparr>"
              "alice\<lparr>identityName := ''Alice B''\<rparr>" "''id-alice''"]
  by (simp add: emptySnapshot_def alice_def bob_def addParticipant_def addActor_def
        HasParticipant_def)

section \<open>Steps that send no error result\<close>

lemma andThen_handle: "andThen f g = handle f failWith g"
  by (auto simp: andThen_def handle_def failWith_def fun_eq_iff split: prod.splits outcome.splits)

lemma quiet_ok: "quiet (ok x)"
  by (simp add: quiet_def ok_def)

lemma quiet_failWith: "quiet (failWith e)"
  by (simp add: quiet_def failWith_def)

lemma quiet_panicked: "quiet panicked"
  by (simp add: quiet_def panicked_def)

lemma quiet_emit: "\<not> isErrorResult r \<Longrightarrow> quiet (emit r)"
  by (simp add: quiet_def emit_def)

lemma quiet_handle:
  assumes f: "quiet f" and h: "\<And>e. quiet (h e)" and g: "\<And>x. quiet (g x)"
  shows "quiet (handle f h g)"
  unfolding quiet_def
proof
  fix w
  obtain r w1 where fw: "f w = (r, w1)" by (cases "f w")
  from f obtain n1 where n1: "out w1 = out w @ n1" "\<forall>r \<in> set n1. \<not> isErrorResult r"
    unfolding quiet_def using fw by (metis snd_conv)
  show "\<exists>new. out (snd (handle f h g w)) = out w @ new \<and> (\<forall>r\<in>set new. \<not> isErrorResult r)"
  proof (cases r)
    case (Ok x)
    from g [of x] obtain n2 where
      "out (snd (g x w1)) = out w1 @ n2" "\<forall>r \<in> set n2. \<not> isErrorResult r"
      unfolding quiet_def by blast
    with n1 Ok fw show ?thesis by (auto simp: handle_def intro!: exI [of _ "n1 @ n2"])
  next
    case (Fail e)
    from h [of e] obtain n2 where
      "out (snd (h e w1)) = out w1 @ n2" "\<forall>r \<in> set n2. \<not> isErrorResult r"
      unfolding quiet_def by blast
    with n1 Fail fw show ?thesis by (auto simp: handle_def intro!: exI [of _ "n1 @ n2"])
  next
    case Panic
    with n1 fw show ?thesis by (auto simp: handle_def)
  qed
qed

lemma quiet_andThen: "quiet f \<Longrightarrow> (\<And>x. quiet (g x)) \<Longrightarrow> quiet (andThen f g)"
  by (simp add: andThen_handle quiet_handle quiet_failWith)

lemma quiet_pure: "(\<And>w. snd (f w) = w) \<Longrightarrow> quiet f"
  by (simp add: quiet_def)

lemma quiet_same_out: "(\<And>w. out (snd (f w)) = out w) \<Longrightarrow> quiet f"
  by (simp add: quiet_def)

lemma quiet_returnErr: "quiet (returnErr e)"
  by (cases e) (simp_all add: returnErr_def quiet_ok quiet_failWith)

lemma quiet_check: "quiet (check r)"
  by (cases r) (simp_all add: check_def quiet_ok quiet_failWith)

lemma quiet_deref: "quiet (deref p)"
  by (cases p) (simp_all add: deref_def quiet_ok quiet_panicked)

lemma quiet_onBug: "(\<And>n. quiet (f n)) \<Longrightarrow> quiet (onBug b f)"
  by (cases b) (simp_all add: onBug_def quiet_panicked)

lemma quiet_ResolveIdentity: "quiet (ResolveIdentityImmutableMetadata env k v)"
  by (rule quiet_pure)
     (simp add: ResolveIdentityImmutableMetadata_def split: option.splits list.splits)

lemma quiet_NewIdentityRaw: "quiet (NewIdentityRaw env a b c d m)"
  by (rule quiet_same_out) (simp add: NewIdentityRaw_def Let_def split: option.splits)

lemma quiet_ResolveBug: "quiet (ResolveBugCreateMetadata env k v)"
  by (rule quiet_pure) (simp add: ResolveBugCreateMetadata_def split: option.splits list.splits)

lemma quiet_BugCache_Id: "quiet (BugCache_Id env b)"
  by (rule quiet_pure) (simp add: BugCache_Id_def split: option.splits)

lemma quiet_opHash: "quiet (opHash env op)"
  by (rule quiet_pure) (simp add: opHash_def split: option.splits)

lemma quiet_ResolveOperation: "quiet (ResolveOperationWithMetadata env n k v)"
  by (rule quiet_pure)
     (simp add: ResolveOperationWithMetadata_def split: option.splits list.splits)

lemma quiet_appendRaw: "quiet (appendRaw env n op)"
  by (rule quiet_same_out) (simp add: appendRaw_def split: option.splits)

lemma quiet_NewBugRaw: "quiet (NewBugRaw env a t ti m md)"
  by (rule quiet_same_out) (simp add: NewBugRaw_def Let_def split: option.splits)

lemma quiet_CommitAsNeeded: "quiet (CommitAsNeeded env n)"
  by (rule quiet_pure) (simp add: CommitAsNeeded_def)

lemma quiet_SearchComment: "quiet (SearchComment env n h)"
  by (rule quiet_pure) (simp add: SearchComment_def split: list.splits)

lemma quiet_firstComment: "quiet (firstComment env n)"
  by (rule quiet_pure) (simp add: firstComment_def split: option.splits)

lemma quiet_counts: "quiet countIssue" "quiet countIdentity"
  by (rule quiet_same_out, simp add: countIssue_def countIdentity_def)+

lemma not_error_results:
  "\<not> isErrorResult (NewImportNothing i r)"
  "\<not> isErrorResult (NewImportBug i)"
  "\<not> isErrorResult (NewImportComment i)"
  "\<not> isErrorResult (NewImportCommentEdition i)"
  "\<not> isErrorResult (NewImportStatusChange i)"
  "\<not> isErrorResult (NewImportLabelChange i)"
  "\<not> isErrorResult (NewImportTitleEdition i)"
  "\<not> isErrorResult (NewImportIdentity i)"
  by (simp_all add: isErrorResult_def NewImportNothing_def NewImportBug_def NewImportComment_def
        NewImportCommentEdition_def NewImportStatusChange_def NewImportLabelChange_def
        NewImportTitleEdition_def NewImportIdentity_def)

lemmas quiet_intros =
  quiet_ok quiet_failWith quiet_panicked quiet_emit quiet_handle quiet_andThen quiet_returnErr
  quiet_check quiet_deref quiet_onBug quiet_ResolveIdentity quiet_NewIdentityRaw quiet_ResolveBug
  quiet_BugCache_Id quiet_opHash quiet_ResolveOperation quiet_appendRaw quiet_NewBugRaw
  quiet_CommitAsNeeded quiet_SearchComment quiet_firstComment quiet_counts not_error_results

lemmas raw_defs =
  CloseRaw_def OpenRaw_def SetTitleRaw_def AddCommentRaw_def EditCommentRaw_def
  ForceChangeLabelsRaw_def

lemma quiet_ensurePerson_gitlab: "quiet (ensurePerson_gitlab env i)"
  unfolding ensurePerson_gitlab_def
  by (auto intro!: quiet_intros split: sum.splits)

lemma quiet_ensureIssue_gitlab: "quiet (ensureIssue_gitlab env i)"
  unfolding ensureIssue_gitlab_def
  by (auto intro!: quiet_intros quiet_ensurePerson_gitlab split: option.splits)

lemma quiet_ensureNote: "quiet (ensureNote env b i n)"
  unfolding ensureNote_def Let_def raw_defs
  by (auto intro!: quiet_intros quiet_ensurePerson_gitlab split: NoteType.splits)

lemma quiet_ensureLabelEvent: "quiet (ensureLabelEvent env b e)"
  unfolding ensureLabelEvent_def Let_def raw_defs
  by (auto intro!: quiet_intros quiet_ensurePerson_gitlab)

lemma quiet_getGhost: "quiet (getGhost env)"
  unfolding getGhost_def
  by (auto intro!: quiet_intros split: sum.splits)

lemma quiet_ensurePerson: "quiet (ensurePerson env a)"
  unfolding ensurePerson_def
  by (auto intro!: quiet_intros quiet_getGhost split: sum.splits option.splits)

lemma quiet_ensureCommentEdit: "quiet (ensureCommentEdit env b t e)"
  unfolding ensureCommentEdit_def raw_defs
  by (auto intro!: quiet_intros quiet_ensurePerson)

lemma quiet_issueEditsLoop: "quiet (issueEditsLoop env issue author k b edits)"
  by (induction edits arbitrary: k b)
     (auto intro!: quiet_intros quiet_ensureCommentEdit split: option.splits)

lemma quiet_ensureIssue: "quiet (ensureIssue env issue edits)"
  unfolding ensureIssue_def
  by (auto intro!: quiet_intros quiet_ensurePerson quiet_issueEditsLoop)

lemma quiet_commentEditsLoop: "quiet (commentEditsLoop env b item k t edits)"
  by (induction edits arbitrary: k t)
     (auto simp: raw_defs intro!: quiet_intros quiet_ensureCommentEdit quiet_ensurePerson)

lemma quiet_ensureTimelineComment: "quiet (ensureTimelineComment env b item edits)"
  unfolding ensureTimelineComment_def raw_defs
  by (auto intro!: quiet_intros quiet_ensurePerson quiet_commentEditsLoop)

lemma quiet_ensureTimelineItem: "quiet (ensureTimelineItem env b item edits)"
  unfolding ensureTimelineItem_def raw_defs Let_def
  by (auto intro!: quiet_intros quiet_ensurePerson quiet_ensureTimelineComment)

lemma quiet_ensurePerson_launchpad: "quiet (ensurePerson_launchpad env p)"
  unfolding ensurePerson_launchpad_def
  by (auto intro!: quiet_intros split: sum.splits)

section \<open>Steps that send an error result last\<close>

lemma orderly_ok: "orderly (ok fl)"
  by (simp add: orderly_def ok_def)

lemma orderly_panicked: "orderly panicked"
  by (simp add: orderly_def panicked_def)

lemma orderly_failWith: "orderly (failWith e)"
  by (simp add: orderly_def failWith_def)

lemma orderly_emit_Return: "orderly (andThen (emit r) (\<lambda>_. ok Return))"
  by (simp add: orderly_def andThen_def emit_def ok_def)

lemma orderly_handle:
  assumes f: "quiet f" and h: "\<And>e. orderly (h e)" and g: "\<And>x. orderly (g x)"
  shows "orderly (handle f h g)"
  unfolding orderly_def
proof
  fix w
  obtain r w1 where fw: "f w = (r, w1)" by (cases "f w")
  from f obtain n1 where n1: "out w1 = out w @ n1" "\<forall>r \<in> set n1. \<not> isErrorResult r"
    unfolding quiet_def using fw by (metis snd_conv)
  have step: "\<exists>new. out (snd (k w1)) = out w @ new \<and>
        (if fst (k w1) = Ok Continue then \<forall>r \<in> set new. \<not> isErrorResult r
         else \<forall>r \<in> set (butlast new). \<not> isErrorResult r)" if "orderly k" for k
  proof -
    from that obtain n2 where n2: "out (snd (k w1)) = out w1 @ n2"
      "if fst (k w1) = Ok Continue then \<forall>r \<in> set n2. \<not> isErrorResult r
       else \<forall>r \<in> set (butlast n2). \<not> isErrorResult r"
      unfolding orderly_def by blast
    show ?thesis
    proof (intro exI [of _ "n1 @ n2"] conjI)
      show "out (snd (k w1)) = out w @ n1 @ n2" using n1 n2 by simp
      show "if fst (k w1) = Ok Continue then \<forall>r \<in> set (n1 @ n2). \<not> isErrorResult r
            else \<forall>r \<in> set (butlast (n1 @ n2)). \<not> isErrorResult r"
        using n1(2) n2(2) by (auto simp: butlast_append dest: in_set_butlastD split: if_splits)
    qed
  qed
  show "\<exists>new. out (snd (handle f h g w)) = out w @ new \<and>
        (if fst (handle f h g w) = Ok Continue then \<forall>r \<in> set new. \<not> isErrorResult r
         else \<forall>r \<in> set (butlast new). \<not> isErrorResult r)"
  proof (cases r)
    case (Ok x)
    then show ?thesis using step [OF g [of x]] fw by (simp add: handle_def)
  next
    case (Fail e)
    then show ?thesis using step [OF h [of e]] fw by (simp add: handle_def)
  next
    case Panic
    then show ?thesis using n1 fw by (auto simp: handle_def dest: in_set_butlastD)
  qed
qed

lemma orderly_andThen: "quiet f \<Longrightarrow> (\<And>x. orderly (g x)) \<Longrightarrow> orderly (andThen f g)"
  by (simp add: andThen_handle orderly_handle orderly_failWith)

lemma orderly_onBug: "(\<And>n. orderly (f n)) \<Longrightarrow> orderly (onBug b f)"
  by (cases b) (simp_all add: onBug_def orderly_panicked)

lemma orderly_whenContinue:
  assumes f: "orderly f" and g: "orderly g"
  shows "orderly (whenContinue f g)"
  unfolding orderly_def
proof
  fix w
  obtain r w1 where fw: "f w = (r, w1)" by (cases "f w")
  from f obtain n1 where n1: "out w1 = out w @ n1"
      "if r = Ok Continue then \<forall>r \<in> set n1. \<not> isErrorResult r
       else \<forall>r \<in> set (butlast n1). \<not> isErrorResult r"
    unfolding orderly_def using fw by (metis fst_conv snd_conv)
  show "\<exists>new. out (snd (whenContinue f g w)) = out w @ new \<and>
        (if fst (whenContinue f g w) = Ok Continue then \<forall>r \<in> set new. \<not> isErrorResult r
         else \<forall>r \<in> set (butlast new). \<not> isErrorResult r)"
  proof (cases "r = Ok Continue")
    case True
    from g obtain n2 where n2: "out (snd (g w1)) = out w1 @ n2"
      "if fst (g w1) = Ok Continue then \<forall>r \<in> set n2. \<not> isErrorResult r
       else \<forall>r \<in> set (butlast n2). \<not> isErrorResult r"
      unfolding orderly_def by blast
    have w: "whenContinue f g w = g w1"
      using True fw by (simp add: whenContinue_def andThen_def)
    show ?thesis
    proof (intro exI [of _ "n1 @ n2"] conjI)
      show "out (snd (whenContinue f g w)) = out w @ n1 @ n2" using n1 n2 w by simp
      show "if fst (whenContinue f g w) = Ok Continue
            then \<forall>r \<in> set (n1 @ n2). \<not> isErrorResult r
            else \<forall>r \<in> set (butlast (n1 @ n2)). \<not> isErrorResult r"
        using n1(2) n2(2) True w
        by (auto simp: butlast_append dest: in_set_butlastD split: if_splits)
    qed
  next
    case False
    then have "snd (whenContinue f g w) = w1 \<and> fst (whenContinue f g w) \<noteq> Ok Continue"
      using fw by (cases r) (auto simp: whenContinue_def andThen_def ok_def split: flow.splits)
    with n1 False show ?thesis by auto
  qed
qed

lemmas orderly_intros =
  orderly_ok orderly_panicked orderly_emit_Return orderly_handle orderly_andThen orderly_onBug
  orderly_whenContinue

lemma orderly_notesLoop: "orderly (notesLoop env b issue ns)"
  by (induction ns) (auto intro!: orderly_intros quiet_ensureNote)

lemma orderly_labelEventsLoop: "orderly (labelEventsLoop env b es)"
  by (induction es) (auto intro!: orderly_intros quiet_ensureLabelEvent)

lemma orderly_importIssue_gitlab: "orderly (importIssue_gitlab env feed)"
  unfolding importIssue_gitlab_def
  by (auto intro!: orderly_intros quiet_intros quiet_ensureIssue_gitlab orderly_notesLoop
        orderly_labelEventsLoop split: option.splits)

lemma orderly_issuesLoop_gitlab: "orderly (issuesLoop_gitlab env ctx k feeds)"
  by (induction feeds arbitrary: k)
     (auto intro!: orderly_intros orderly_importIssue_gitlab split: option.splits)

lemma orderly_timelineLoop: "orderly (timelineLoop env b ts)"
  by (induction ts) (auto intro!: orderly_intros quiet_ensureTimelineItem)

lemma orderly_importIssue: "orderly (importIssue env feed)"
  unfolding importIssue_def
  by (auto intro!: orderly_intros quiet_intros quiet_ensureIssue orderly_timelineLoop
        split: option.splits)

lemma orderly_issuesLoop: "orderly (issuesLoop env ctx k feeds)"
  by (induction feeds arbitrary: k)
     (auto intro!: orderly_intros orderly_importIssue split: option.splits)

lemma orderly_messagesLoop: "orderly (messagesLoop env b i ms)"
  by (induction ms)
     (auto simp: raw_defs intro!: orderly_intros quiet_intros quiet_ensurePerson_launchpad)

lemma orderly_importBug_launchpad: "orderly (importBug_launchpad env lpBug)"
  unfolding importBug_launchpad_def Let_def
  by (auto intro!: orderly_intros quiet_intros quiet_ensurePerson_launchpad orderly_messagesLoop
        split: option.splits flow.splits)

lemma orderly_bugsLoop_launchpad: "orderly (bugsLoop_launchpad env ctx k bs)"
  by (induction bs arbitrary: k)
     (auto intro!: orderly_intros orderly_importBug_launchpad split: option.splits)

lemma orderly_errorLast:
  assumes "orderly f" and "out w = []"
  shows "errorLast (out (snd (f w)))"
proof -
  from assms obtain new where new: "out (snd (f w)) = new"
    "\<forall>r \<in> set (butlast new). \<not> isErrorResult r"
    unfolding orderly_def by (metis append_Nil in_set_butlastD)
  show ?thesis
    unfolding errorLast_def new(1)
  proof (intro allI impI)
    fix k assume k: "k < length new" "isErrorResult (new ! k)"
    show "Suc k = length new"
    proof (rule ccontr)
      assume "Suc k \<noteq> length new"
      with k have less: "k < length (butlast new)" by simp
      then have "butlast new ! k \<in> set (butlast new)" by simp
      moreover have "butlast new ! k = new ! k" using less by (simp add: nth_butlast)
      ultimately show False using new(2) k by auto
    qed
  qed
qed

lemma snd_endOfRun: "snd (endOfRun r) = snd r"
  by (cases r) (auto simp: endOfRun_def split: outcome.splits)

lemma snd_endOfRun_launchpad: "snd (endOfRun_launchpad r) = snd r"
  by (cases r) (auto simp: endOfRun_launchpad_def split: outcome.splits)

lemma github_errorLast: "errorLast (out (snd (ImportAll env ctx feeds ie w)))"
  unfolding ImportAll_def snd_endOfRun
  by (rule orderly_errorLast)
     (auto intro!: orderly_intros orderly_issuesLoop split: option.splits)

lemma gitlab_errorLast: "errorLast (out (snd (ImportAll_gitlab env ctx feeds w)))"
  unfolding ImportAll_gitlab_def snd_endOfRun
  by (rule orderly_errorLast [OF orderly_issuesLoop_gitlab]) simp

lemma launchpad_errorLast:
  "ImportAll_launchpad env ctx api w = Inr (st, w') \<Longrightarrow> errorLast (out w')"
  unfolding ImportAll_launchpad_def
  using orderly_errorLast [OF orderly_bugsLoop_launchpad, of "w\<lparr>out := []\<rparr>" env ctx 0]
  by (auto simp: snd_endOfRun_launchpad split: option.splits sum.splits
        dest!: arg_cong [where f = snd])

section \<open>Properties of the importers\<close>

text \<open>
  C6. In every run of \<open>ImportAll\<close>, of GitHub, of GitLab and of Launchpad, whatever the
  remote data, the repository, the failures of the store and the moment of cancellation:
  an error result on the stream is the last result of the stream.
\<close>

theorem error_result_is_last:
  "errorLast (out (snd (ImportAll env ctx feeds iteratorError w))) \<and>
   errorLast (out (snd (ImportAll_gitlab env ctx gitlabFeeds w))) \<and>
   (\<forall>st w'. ImportAll_launchpad env ctx api w = Inr (st, w') \<longrightarrow> errorLast (out w'))"
  using github_errorLast gitlab_errorLast launchpad_errorLast by blast

theorem error_result_is_last_witness:
  "out gitlabCommented =
     [NewImportIdentity ''id-u3'', NewImportBug ''create@100'',
      NewImportError (Some (Errorf ''note creation: '' ErrNoMatchingOp)) ''8''] \<and>
   2 < length (out gitlabCommented) \<and>
   isErrorResult (out gitlabCommented ! 2) \<and>
   Suc 2 = length (out gitlabCommented) \<and>
   0 < length (out (snd (ImportAll env0 notDone githubFeed None twoAlices))) \<and>
   isErrorResult (out (snd (ImportAll env0 notDone githubFeed None twoAlices)) ! 0) \<and>
   Suc 0 = length (out (snd (ImportAll env0 notDone githubFeed None twoAlices))) \<and>
   ImportAll_launchpad env0 notDone \<lparr>lpInit = None, lpSearchTasks = Inr [lpBug1]\<rparr> world0 =
     Inr (StreamLeftOpen,
          world0\<lparr>identities := [carol],
                 out := [NewImportError None ''failed to fetch comments for bug #1'']\<rparr>) \<and>
   errorLast [NewImportError None ''failed to fetch comments for bug #1'']"
proof -
  note last =
    error_result_is_last [of env0 notDone githubFeed None twoAlices
      "gitlabFeed issue1 [commentNote]"
      "\<lparr>lpInit = None, lpSearchTasks = Inr [lpBug1]\<rparr>"]
    error_result_is_last [of env0 notDone githubFeed None world0
      "gitlabFeed issue1 [commentNote]"
      "\<lparr>lpInit = None, lpSearchTasks = Inr [lpBug1]\<rparr>"]
  have gl: "out gitlabCommented =
     [NewImportIdentity ''id-u3'', NewImportBug ''create@100'',
      NewImportError (Some (Errorf ''note creation: '' ErrNoMatchingOp)) ''8'']"
    by code_simp
  have gl_err: "isErrorResult (out gitlabCommented ! 2)"
    by (simp add: gl isErrorResult_def NewImportError_def)
  have gh: "out (snd (ImportAll env0 notDone githubFeed None twoAlices)) =
     [NewImportError
        (Some (Errorf ''issue creation: '' (ErrMultipleMatch [''id-alice'', ''id-alice-2'']))) []]"
    by code_simp
  have gh_err: "isErrorResult (out (snd (ImportAll env0 notDone githubFeed None twoAlices)) ! 0)"
    by (simp add: gh isErrorResult_def NewImportError_def)
  have lp: "ImportAll_launchpad env0 notDone \<lparr>lpInit = None, lpSearchTasks = Inr [lpBug1]\<rparr>
              world0 =
     Inr (StreamLeftOpen,
          world0\<lparr>identities := [carol],
                 out := [NewImportError None ''failed to fetch comments for bug #1'']\<rparr>)"
    by code_simp
  from last(2) have "errorLast (out (snd (ImportAll_gitlab env0 notDone
                                           (gitlabFeed issue1 [commentNote]) world0)))"
    by (rule conjunct2 [THEN conjunct1])
  then have "errorLast (out gitlabCommented)"
    unfolding gitlabCommented_def .
  then have gl_last: "Suc 2 = length (out gitlabCommented)"
    unfolding errorLast_def using gl_err by (simp add: gl)
  from last(1) have "errorLast (out (snd (ImportAll env0 notDone githubFeed None twoAlices)))"
    by (rule conjunct1)
  then have gh_last: "Suc 0 = length (out (snd (ImportAll env0 notDone githubFeed None twoAlices)))"
    unfolding errorLast_def using gh_err by (simp add: gh)
  from last(2) have
    "\<forall>st w'. ImportAll_launchpad env0 notDone \<lparr>lpInit = None, lpSearchTasks = Inr [lpBug1]\<rparr>
                world0 = Inr (st, w') \<longrightarrow> errorLast (out w')"
    by (rule conjunct2 [THEN conjunct2])
  from this [rule_format, OF lp]
  have lp_last: "errorLast [NewImportError None ''failed to fetch comments for bug #1'']"
    by simp
  have len: "2 < length (out gitlabCommented)"
            "0 < length (out (snd (ImportAll env0 notDone githubFeed None twoAlices)))"
    by (simp_all add: gl gh)
  show ?thesis
    by (intro conjI gl gl_err gl_last gh_err gh_last lp lp_last len)
qed

text \<open>
  How an ambiguous identity travels: the lookup answers with the multiple-match error, and
  each \<open>ensurePerson\<close> returns it at once.
\<close>

lemma resolve_multiple:
  assumes "identityLookupErr env w key v = None" and "1 < length (holders w key v)"
  shows "ResolveIdentityImmutableMetadata env key v w =
           (Ok (Inl (ErrMultipleMatch (map identityId (holders w key v)))), w)"
proof -
  from assms(2) obtain i j rest where "holders w key v = i # j # rest"
    by (cases "holders w key v"; cases "tl (holders w key v)") auto
  then show ?thesis
    using assms(1) by (simp add: ResolveIdentityImmutableMetadata_def holders_def)
qed

lemma isErrMultipleMatch_ErrMultipleMatch: "isErrMultipleMatch (ErrMultipleMatch ids)"
  by (simp add: isErrMultipleMatch_def)

lemma multiple_match_ghost:
  assumes "identityLookupErr env w keyGithubLogin ''ghost'' = None"
    and "1 < length (holders w keyGithubLogin ''ghost'')"
  shows "ensurePerson env None w =
           (Fail (ErrMultipleMatch (map identityId (holders w keyGithubLogin ''ghost''))), w)"
  using resolve_multiple [OF assms]
  by (simp add: ensurePerson_def getGhost_def andThen_def failWith_def
        isErrMultipleMatch_ErrMultipleMatch)

lemma multiple_match_gitlab:
  assumes "identityLookupErr env w keyGitlabId (Itoa n) = None"
    and "1 < length (holders w keyGitlabId (Itoa n))"
  shows "ensurePerson_gitlab env n w =
           (Fail (ErrMultipleMatch (map identityId (holders w keyGitlabId (Itoa n)))), w)"
  using resolve_multiple [OF assms]
  by (simp add: ensurePerson_gitlab_def andThen_def failWith_def
        isErrMultipleMatch_ErrMultipleMatch)



section \<open>Where the importers leave the specification\<close>

text \<open>
  Three facts that hold on every input. In GitLab a closing note appends an operation
  whether or not its remote id is already in the log, and whatever the lookup of a comment
  note answers as its error is returned, \<^verbatim>\<open>NoMatchingOp\<close> included. In GitHub a closed event
  that is found returns with the world, the stream included, as it was.
\<close>

lemma gitlab_status_note_always_appends:
  assumes "glNoteType note = NOTE_CLOSED"
    and "ensurePerson_gitlab env (glNoteAuthorID note) w = (Ok author, w1)"
    and "b < length (bugs w1)"
    and "appendErr env w1 (mkOp author (glNoteCreatedAt note) (SetStatusOp ClosedStatus)
           [(keyGitlabId, parseID (glNoteID note))]) = None"
  shows "length (opsOf (snd (ensureNote env b issue note w)) b) = Suc (length (opsOf w1 b))"
  using assms
  by (auto simp: ensureNote_def Let_def andThen_def CloseRaw_def appendRaw_def opHash_def
        emit_def opsOf_def split: option.splits)

lemma gitlab_comment_lookup_error_is_returned:
  assumes "glNoteType note = NOTE_COMMENT"
    and "ensurePerson_gitlab env (glNoteAuthorID note) w = (Ok author, w1)"
    and "ResolveOperationWithMetadata env b keyGitlabId (parseID (glNoteID note)) w1 =
           (Ok (h, Some e), w1)"
  shows "ensureNote env b issue note w = (Fail e, w1)"
  using assms
  by (simp add: ensureNote_def Let_def andThen_def returnErr_def failWith_def)

lemma github_present_closed_event_is_silent:
  assumes "Typename item = ''ClosedEvent''"
    and "ResolveOperationWithMetadata env n keyGithubId (parseId (eventId (ClosedEvent item))) w =
           (Ok (h, None), w)"
  shows "ensureTimelineItem env n item edits w = (Ok (), w)"
  using assms
  by (simp add: ensureTimelineItem_def Let_def andThen_def returnErr_def ok_def)

text \<open>
  C1. A second import of unchanged remote data should append nothing and send only
  \<open>Nothing\<close> results; in particular a status change whose remote id is already among the
  metadata of the operations should append nothing. The GitLab importer appends it again:
  \<open>ensureNote\<close> closes the bug for a \<^verbatim>\<open>NOTE_CLOSED\<close> note without any lookup. After the first
  import the log is the creation and the closing with remote id 7; the second import of
  the same data appends a second closing with remote id 7 and sends a status-change result.
\<close>

theorem gitlab_reimport_repeats_status_change:
  "map opPayload (opsOf gitlabClosedOnce 0) =
     [CreateOp ''Bug A'' ''desc'', SetStatusOp ClosedStatus] \<and>
   map (\<lambda>op. map_of (opMetadata op) keyGitlabId) (opsOf gitlabClosedOnce 0) =
     [Some ''1'', Some ''7''] \<and>
   map opPayload (opsOf gitlabClosedTwice 0) =
     [CreateOp ''Bug A'' ''desc'', SetStatusOp ClosedStatus, SetStatusOp ClosedStatus] \<and>
   map (\<lambda>op. map_of (opMetadata op) keyGitlabId) (opsOf gitlabClosedTwice 0) =
     [Some ''1'', Some ''7'', Some ''7''] \<and>
   out gitlabClosedTwice =
     [NewImportNothing [] ''bug already imported'', NewImportStatusChange ''status@200'']"
  by code_simp

text \<open>
  C2. The \<^verbatim>\<open>NoMatchingOp\<close> outcome of the lookup should select the create path and never
  come back as an error. In \<open>ensureNote\<close> of GitLab, for a comment note, the test
  \<^verbatim>\<open>errResolve != nil\<close> returns it before the test \<^verbatim>\<open>errResolve == cache.ErrNoMatchingOp\<close> is
  reached: a comment that was never imported ends the run with an error result, and no
  comment is added.
\<close>

theorem gitlab_new_comment_aborts_run:
  "fst (ensureNote env0 0 issue1 commentNote gitlabImported) = Fail ErrNoMatchingOp \<and>
   out gitlabCommented =
     [NewImportIdentity ''id-u3'', NewImportBug ''create@100'',
      NewImportError (Some (Errorf ''note creation: '' ErrNoMatchingOp)) ''8''] \<and>
   map opPayload (opsOf gitlabCommented 0) = [CreateOp ''Bug A'' ''desc'']"
  by code_simp

text \<open>
  C3. The result sent for an appended operation should be the typed result of its kind,
  with its hash. In \<open>ensureNote\<close> of GitLab a changed description appends a comment
  edition and sends a title-edition result; and \<open>ensureLabelEvent\<close> appends a label change
  and sends no result.
\<close>

theorem gitlab_description_edit_sent_as_title_edition:
  "map opPayload (opsOf gitlabDescriptionChanged 0) =
     [CreateOp ''Bug A'' ''desc'', EditCommentOp ''create@100'' ''desc v2''] \<and>
   map (Hash env0) (opsOf gitlabDescriptionChanged 0) = [''create@100'', ''edit@400''] \<and>
   out gitlabDescriptionChanged =
     [NewImportNothing [] ''bug already imported'', NewImportTitleEdition ''edit@400''] \<and>
   map Event (out gitlabDescriptionChanged) = [ImportEventNothing, ImportEventTitleEdition] \<and>
   map opPayload (opsOf gitlabLabelled 0) =
     [CreateOp ''Bug A'' ''desc'', LabelChangeOp [''bug''] []] \<and>
   out gitlabLabelled = [NewImportIdentity ''id-u3'', NewImportBug ''create@100'']"
  by code_simp

text \<open>
  C4. An event that is already present should be skipped with a \<open>Nothing\<close> result. In
  \<open>ensureTimelineItem\<close> of GitHub, for a closed, reopened or renamed-title event, the test
  \<^verbatim>\<open>err != cache.ErrNoMatchingOp\<close> returns the nil error before the test \<^verbatim>\<open>err == nil\<close> is
  reached: the event is skipped and nothing is sent for it. The second import of the closed
  issue sends one result, for the issue, and none for its closed event.
\<close>

theorem github_present_closed_event_sends_nothing:
  "map (\<lambda>op. map_of (opMetadata op) keyGithubId) (opsOf githubClosedOnce 0) =
     [Some ''I1'', Some ''E7''] \<and>
   ensureTimelineItem env0 0 closedItem [] githubClosedOnce = (Ok (), githubClosedOnce) \<and>
   out (snd (ImportAll env0 notDone githubFeed None githubClosedOnce)) =
     [NewImportNothing [] ''bug already imported''] \<and>
   opsOf (snd (ImportAll env0 notDone githubFeed None githubClosedOnce)) 0 =
     opsOf githubClosedOnce 0"
  by code_simp

text \<open>
  C5. On a done context the importer should send a last error result with the cause. The
  importers of GitHub and of GitLab do; the Launchpad importer returns without sending
  anything: whatever the bugs and the repository, a context that is done at the first check
  leaves an empty stream.
\<close>

theorem launchpad_cancellation_is_silent:
  "ImportAll_launchpad env (\<lambda>k. Some cause)
     \<lparr>lpInit = None, lpSearchTasks = Inr (lpBug # rest)\<rparr> w =
     Inr (StreamLeftOpen, w\<lparr>out := []\<rparr>) \<and>
   ImportAll env (\<lambda>k. Some cause) (feed # feeds) iteratorError w =
     (StreamClosed, w\<lparr>out := [NewImportError (Some cause) []]\<rparr>) \<and>
   ImportAll_gitlab env (\<lambda>k. Some cause) (gitlabIssueFeed # gitlabFeeds) w =
     (StreamClosed, w\<lparr>out := [NewImportError (Some cause) []]\<rparr>)"
  by (simp add: ImportAll_launchpad_def ImportAll_def ImportAll_gitlab_def endOfRun_def
        endOfRun_launchpad_def whenContinue_def andThen_def ok_def emit_def)

text \<open>
  C7. A bug without fetched messages should give an error result with a cause. The
  Launchpad importer sends a result built by \<open>NewImportError\<close> from its variable \<^verbatim>\<open>err\<close>,
  which is nil at that point: the result carries no error, only the reason, and the
  consumer, which tells an error by \<^verbatim>\<open>result.Err != nil\<close>, prints it with \<^verbatim>\<open>String\<close>, which
  panics on its event.
\<close>

theorem launchpad_no_messages_result_has_no_cause:
  "ImportAll_launchpad env0 notDone \<lparr>lpInit = None, lpSearchTasks = Inr [lpBug1]\<rparr> world0 =
     Inr (StreamLeftOpen,
          world0\<lparr>identities := [carol],
                 out := [NewImportError None ''failed to fetch comments for bug #1'']\<rparr>) \<and>
   Err (NewImportError None ''failed to fetch comments for bug #1'') = None \<and>
   String_ImportResult (NewImportError None ''failed to fetch comments for bug #1'') = None"
  by code_simp

end
